theory Spec2Isabelle
  imports Complex_Main "HOL-Library.Sublist"
begin

section \<open>JavaScript values\<close>

text \<open>
  The server is untyped where it matters: a caught failure is \<^verbatim>\<open>any\<close>, and so is every
  upstream response body. The embedding therefore works over the data values of the language:
  \<^verbatim>\<open>undefined\<close>, \<^verbatim>\<open>null\<close>, booleans, numbers, strings, arrays, plain objects (what
  \<^verbatim>\<open>JSON.parse\<close> produces, plus \<^verbatim>\<open>undefined\<close>) and instances of \<^verbatim>\<open>Error\<close>.

  A number is a double: \<open>JNum q\<close> carries the exact value \<open>q\<close> of a finite double (the two zeros
  are one value; nothing the server does tells them apart), and \<^verbatim>\<open>NaN\<close> and the two infinities
  stand apart. An object is the list of its own properties (the first binding of a key is the
  property). An instance of \<^verbatim>\<open>Error\<close> is given by the values its \<^verbatim>\<open>name\<close> and \<^verbatim>\<open>message\<close>
  resolve to (own or inherited from the prototype) and by its other own properties.

  Outside this universe are the values on which reading a property runs code (getters,
  proxies), functions, symbols and big integers.
\<close>

datatype jsval =
    JUndefined
  | JNull
  | JBool bool
  | JNum rat
  | JNaN
  | JPosInf
  | JNegInf
  | JStr string
  | JArr "jsval list"
  | JObj "(string \<times> jsval) list"
  | JErr jsval jsval "(string \<times> jsval) list"

text \<open>Truthiness, as used by \<^verbatim>\<open>if\<close>, \<^verbatim>\<open>!\<close>, \<^verbatim>\<open>||\<close> and \<^verbatim>\<open>?:\<close>.\<close>

fun truthy :: "jsval \<Rightarrow> bool" where
  "truthy JUndefined = False"
| "truthy JNull = False"
| "truthy (JBool b) = b"
| "truthy (JNum q) = (q \<noteq> 0)"
| "truthy JNaN = False"
| "truthy JPosInf = True"
| "truthy JNegInf = True"
| "truthy (JStr s) = (s \<noteq> [])"
| "truthy (JArr xs) = True"
| "truthy (JObj kvs) = True"
| "truthy (JErr n m kvs) = True"

definition js_or :: "jsval \<Rightarrow> jsval \<Rightarrow> jsval" where
  "js_or a b = (if truthy a then a else b)"

fun nullish :: "jsval \<Rightarrow> bool" where
  "nullish JUndefined = True"
| "nullish JNull = True"
| "nullish v = False"


text \<open>
  Reading a property of a value that is neither \<^verbatim>\<open>undefined\<close> nor \<^verbatim>\<open>null\<close>. None of the
  property names the server reads is defined on the prototypes of primitives, arrays or plain
  objects, so only own properties answer, and for an instance of \<^verbatim>\<open>Error\<close> its \<^verbatim>\<open>name\<close> and
  \<^verbatim>\<open>message\<close>.
\<close>

fun get_prop :: "jsval \<Rightarrow> string \<Rightarrow> jsval" where
  "get_prop (JObj kvs) k = (case map_of kvs k of Some v \<Rightarrow> v | None \<Rightarrow> JUndefined)"
| "get_prop (JErr n m kvs) k =
     (if k = ''name'' then n else if k = ''message'' then m
      else (case map_of kvs k of Some v \<Rightarrow> v | None \<Rightarrow> JUndefined))"
| "get_prop v k = JUndefined"

text \<open>Optional chaining \<^verbatim>\<open>v?.k\<close>.\<close>

definition opt_chain :: "jsval \<Rightarrow> string \<Rightarrow> jsval" where
  "opt_chain v k = (if nullish v then JUndefined else get_prop v k)"

text \<open>
  \<^verbatim>\<open>new Error(msg)\<close>, and a \<^verbatim>\<open>TypeError\<close> of the runtime. The texts of the runtime's errors are
  those of Node's engine.
\<close>

definition mk_error :: "string \<Rightarrow> jsval" where
  "mk_error msg = JErr (JStr ''Error'') (JStr msg) []"

definition type_error :: "string \<Rightarrow> jsval" where
  "type_error msg = JErr (JStr ''TypeError'') (JStr msg) []"

text \<open>Plain member access \<^verbatim>\<open>v.k\<close>: a \<^verbatim>\<open>TypeError\<close> on \<^verbatim>\<open>undefined\<close> and \<^verbatim>\<open>null\<close>.\<close>

definition member :: "jsval \<Rightarrow> string \<Rightarrow> jsval + jsval" where
  "member v k =
     (if nullish v
      then Inl (type_error (''Cannot read properties of ''
                  @ (if v = JNull then ''null'' else ''undefined'')
                  @ '' (reading '' @ [CHR 0x27] @ k @ [CHR 0x27] @ '')''))
      else Inr (get_prop v k))"

definition bind_res :: "jsval + 'a \<Rightarrow> ('a \<Rightarrow> jsval + 'b) \<Rightarrow> jsval + 'b" where
  "bind_res m f = (case m of Inl e \<Rightarrow> Inl e | Inr x \<Rightarrow> f x)"

subsection \<open>Doubles\<close>

text \<open>
  The double nearest to a rational, ties to the even significand: the quantum is
  \<open>2\<^sup>e\<^sup>-\<^sup>5\<^sup>2\<close> for the binary exponent \<open>e\<close> of the magnitude, not below that of the subnormals, the
  magnitude is rounded to \<open>m\<close> quanta, and a result that reaches \<open>2\<^sup>1\<^sup>0\<^sup>2\<^sup>4\<close> is an infinity: that is
  an exponent above 1023, or the exponent 1023 with \<open>m\<close> rounded up to \<open>2\<^sup>5\<^sup>3\<close>. The loops that find
  an exponent run at most 1100 times, more than the exponents of doubles need; a magnitude
  beyond them is an infinity or zero either way.
\<close>

definition pow2 :: "int \<Rightarrow> rat" where
  "pow2 e = (if 0 \<le> e then 2 ^ nat e else 1 / 2 ^ nat (- e))"

definition pow10 :: "int \<Rightarrow> rat" where
  "pow10 e = (if 0 \<le> e then 10 ^ nat e else 1 / 10 ^ nat (- e))"

primrec exponent_up :: "rat \<Rightarrow> nat \<Rightarrow> rat \<Rightarrow> int \<Rightarrow> int" where
  "exponent_up b 0 v e = e"
| "exponent_up b (Suc fuel) v e = (if v < b then e else exponent_up b fuel (v / b) (e + 1))"

primrec exponent_down :: "rat \<Rightarrow> nat \<Rightarrow> rat \<Rightarrow> int \<Rightarrow> int" where
  "exponent_down b 0 v e = e"
| "exponent_down b (Suc fuel) v e =
     (if 1 \<le> v then e else exponent_down b fuel (v * b) (e - 1))"

text \<open>The exponent \<open>e\<close> with \<open>b\<^sup>e \<le> v < b\<^sup>e\<^sup>+\<^sup>1\<close>, for a positive \<open>v\<close>.\<close>

definition exponent_of :: "rat \<Rightarrow> rat \<Rightarrow> int" where
  "exponent_of b v = (if 1 \<le> v then exponent_up b 1100 v 0 else exponent_down b 1100 v 0)"

definition round_half_even :: "rat \<Rightarrow> int" where
  "round_half_even m =
     (let f = \<lfloor>m\<rfloor>; d = m - of_int f
      in if d < 1 / 2 then f else if 1 / 2 < d then f + 1 else if even f then f else f + 1)"

definition to_double :: "rat \<Rightarrow> jsval" where
  "to_double v =
     (if v = 0 then JNum 0
      else (let a = (if v < 0 then - v else v);
                e = max (exponent_of 2 a) (- 1022);
                q = pow2 (e - 52);
                m = round_half_even (a / q)
            in if 1023 < e \<or> (e = 1023 \<and> m = 2 ^ 53)
               then (if v < 0 then JNegInf else JPosInf)
               else JNum (if v < 0 then - (of_int m * q) else of_int m * q)))"

definition is_double :: "rat \<Rightarrow> bool" where
  "is_double q \<longleftrightarrow> to_double q = JNum q"

text \<open>The value \<^verbatim>\<open>JSON.parse\<close> gives a numeric literal.\<close>

definition json_number :: "rat \<Rightarrow> jsval" where
  "json_number q = to_double q"

subsection \<open>Conversion to strings\<close>

definition digit_char :: "nat \<Rightarrow> char" where
  "digit_char d = ''0123456789'' ! d"

text \<open>The decimal digits of a natural number.\<close>

function decimal_digits :: "int \<Rightarrow> string" where
  "decimal_digits k =
     (if k < 10 then [digit_char (nat k)]
      else decimal_digits (k div 10) @ [digit_char (nat (k mod 10))])"
  by pat_completeness auto
termination
  by (relation "measure nat") auto

declare decimal_digits.simps [simp del]

text \<open>
  \<^verbatim>\<open>Number::toString\<close> of a positive double \<open>x\<close> with \<open>10\<^sup>n\<^sup>-\<^sup>1 \<le> x < 10\<^sup>n\<close>: the fewest digits
  \<open>k\<close> such that a \<open>k\<close>-digit decimal is read back as \<open>x\<close>; of two such decimals the nearer one,
  and the even one when they are equally near. The candidates with \<open>k\<close> digits are the decimal
  just below (or at) \<open>x\<close> and the one just above it.
\<close>

definition digit_candidate :: "rat \<Rightarrow> int \<Rightarrow> nat \<Rightarrow> (string \<times> int) option" where
  "digit_candidate x n k =
     (let scale = pow10 (n - int k);
          lo = \<lfloor>x / scale\<rfloor>;
          hi = lo + 1;
          below = x - of_int lo * scale;
          above = of_int hi * scale - x;
          lo_ok = (to_double (of_int lo * scale) = JNum x);
          hi_ok = (to_double (of_int hi * scale) = JNum x)
      in if hi_ok \<and> (\<not> lo_ok \<or> above < below \<or> (above = below \<and> even hi))
         then (if hi = 10 ^ k then Some (''1'', n + 1) else Some (decimal_digits hi, n))
         else if lo_ok then Some (decimal_digits lo, n)
         else None)"

fun shortest_digits :: "rat \<Rightarrow> int \<Rightarrow> nat list \<Rightarrow> string \<times> int" where
  "shortest_digits x n [] = (decimal_digits \<lfloor>x / pow10 (n - 17)\<rfloor>, n)"
| "shortest_digits x n (k # ks) =
     (case digit_candidate x n k of Some r \<Rightarrow> r | None \<Rightarrow> shortest_digits x n ks)"

text \<open>The digits \<open>ds\<close> of a number below \<open>10\<^sup>n\<close>, laid out as \<^verbatim>\<open>Number::toString\<close> does.\<close>

definition format_digits :: "string \<Rightarrow> int \<Rightarrow> string" where
  "format_digits ds n =
     (let k = int (length ds)
      in if k \<le> n \<and> n \<le> 21 then ds @ replicate (nat (n - k)) (CHR ''0'')
         else if 0 < n \<and> n \<le> 21 then take (nat n) ds @ ''.'' @ drop (nat n) ds
         else if - 6 < n \<and> n \<le> 0 then ''0.'' @ replicate (nat (- n)) (CHR ''0'') @ ds
         else (if k = 1 then ds else take 1 ds @ ''.'' @ drop 1 ds)
              @ ''e'' @ (if 0 \<le> n - 1 then ''+'' @ decimal_digits (n - 1)
                         else ''-'' @ decimal_digits (1 - n)))"

text \<open>
  \<^verbatim>\<open>Number::toString\<close> of a finite double. An integer below \<open>2\<^sup>5\<^sup>3\<close> in magnitude is its
  decimal digits (no shorter decimal is read back as it).
\<close>

definition number_toString :: "rat \<Rightarrow> string" where
  "number_toString q =
     (if q = 0 then ''0''
      else (let a = (if q < 0 then - q else q)
            in (if q < 0 then ''-'' else [])
               @ (if of_int \<lfloor>a\<rfloor> = a \<and> a < 2 ^ 53 then decimal_digits \<lfloor>a\<rfloor>
                  else (case shortest_digits a (exponent_of 10 a + 1)
                               [1, 2, 3, 4, 5, 6, 7, 8, 9, 10, 11, 12, 13, 14, 15, 16, 17] of
                          (ds, n) \<Rightarrow> format_digits ds n))))"

fun join_strings :: "string \<Rightarrow> string list \<Rightarrow> string" where
  "join_strings sep [] = []"
| "join_strings sep [x] = x"
| "join_strings sep (x # y # ys) = x @ sep @ join_strings sep (y # ys)"

text \<open>
  \<^verbatim>\<open>ToString\<close>, as applied by template literals, \<^verbatim>\<open>String(v)\<close> and \<^verbatim>\<open>join\<close>. It throws a
  \<^verbatim>\<open>TypeError\<close> on an object that has an own property \<^verbatim>\<open>toString\<close>: among data values that
  property is not a function, and the inherited \<^verbatim>\<open>valueOf\<close> returns the object itself. An array
  joins its elements with commas, \<^verbatim>\<open>undefined\<close> and \<^verbatim>\<open>null\<close> elements giving the empty string;
  a plain object is \<^verbatim>\<open>[object Object]\<close>; an instance of \<^verbatim>\<open>Error\<close> is its name and message as
  \<^verbatim>\<open>Error.prototype.toString\<close> puts them together. \<open>converts\<close> tells whether the conversion
  succeeds, \<open>toString_raw\<close> is its result when it does.
\<close>

fun converts :: "jsval \<Rightarrow> bool" where
  "converts (JArr xs) = list_all (\<lambda>v. nullish v \<or> converts v) xs"
| "converts (JObj kvs) = (map_of kvs ''toString'' = None)"
| "converts (JErr n m kvs) =
     (map_of kvs ''toString'' = None \<and> (n = JUndefined \<or> converts n)
      \<and> (m = JUndefined \<or> converts m))"
| "converts v = True"

fun toString_raw :: "jsval \<Rightarrow> string" where
  "toString_raw JUndefined = ''undefined''"
| "toString_raw JNull = ''null''"
| "toString_raw (JBool b) = (if b then ''true'' else ''false'')"
| "toString_raw (JNum q) = number_toString q"
| "toString_raw JNaN = ''NaN''"
| "toString_raw JPosInf = ''Infinity''"
| "toString_raw JNegInf = ''-Infinity''"
| "toString_raw (JStr s) = s"
| "toString_raw (JArr xs) =
     join_strings '','' (map (\<lambda>v. if nullish v then [] else toString_raw v) xs)"
| "toString_raw (JObj kvs) = ''[object Object]''"
| "toString_raw (JErr n m kvs) =
     (let name = (if n = JUndefined then ''Error'' else toString_raw n);
          msg = (if m = JUndefined then [] else toString_raw m)
      in if name = [] then msg else if msg = [] then name else name @ '': '' @ msg)"

definition cannot_convert :: jsval where
  "cannot_convert = type_error ''Cannot convert object to primitive value''"

definition toString_js :: "jsval \<Rightarrow> jsval + string" where
  "toString_js v = (if converts v then Inr (toString_raw v) else Inl cannot_convert)"

text \<open>\<^verbatim>\<open>Array.prototype.join\<close> on an array of values.\<close>

definition array_join :: "string \<Rightarrow> jsval list \<Rightarrow> jsval + string" where
  "array_join sep xs =
     (if list_all (\<lambda>v. nullish v \<or> converts v) xs
      then Inr (join_strings sep (map (\<lambda>v. if nullish v then [] else toString_raw v) xs))
      else Inl cannot_convert)"

text \<open>
  The pieces of a template literal, evaluated and converted from left to right; the first
  failure is the literal's.
\<close>

fun concat_res :: "(jsval + string) list \<Rightarrow> jsval + string" where
  "concat_res [] = Inr []"
| "concat_res (p # ps) = bind_res p (\<lambda>s. bind_res (concat_res ps) (\<lambda>t. Inr (s @ t)))"

definition member_text :: "jsval \<Rightarrow> string \<Rightarrow> jsval + string" where
  "member_text v k = bind_res (member v k) toString_js"

section \<open>Write throttle\<close>

definition RATE_LIMIT_WINDOW_MS :: int where
  "RATE_LIMIT_WINDOW_MS = 60000"

definition RATE_LIMIT_MAX_WRITES :: nat where
  "RATE_LIMIT_MAX_WRITES = 30"

definition rate_limit_message :: string where
  "rate_limit_message =
     ''Rate limit exceeded: maximum '' @ number_toString (of_nat RATE_LIMIT_MAX_WRITES)
     @ '' write operations per '' @ number_toString (of_int RATE_LIMIT_WINDOW_MS / 1000)
     @ ''s. Please wait before retrying.''"

text \<open>
  \<^verbatim>\<open>checkRateLimit\<close>, with the reading of the clock and the global \<^verbatim>\<open>rateLimiter.timestamps\<close>
  made explicit. The pruned list is stored before the ceiling is tested, so it is the new state
  on rejection too; a rejection is the thrown \<^verbatim>\<open>Error\<close>.
\<close>

definition checkRateLimit :: "int \<Rightarrow> int list \<Rightarrow> (jsval + unit) \<times> int list" where
  "checkRateLimit now stamps =
     (let pruned = filter (\<lambda>ts. now - ts < RATE_LIMIT_WINDOW_MS) stamps
      in if length pruned \<ge> RATE_LIMIT_MAX_WRITES
         then (Inl (mk_error rate_limit_message), pruned)
         else (Inr (), pruned @ [now]))"

section \<open>Error sanitizer\<close>

text \<open>
  \<^verbatim>\<open>formatHarvestError\<close>: the status and the message are read through optional chaining, the
  message falls through \<^verbatim>\<open>||\<close> from the upstream body's \<^verbatim>\<open>message\<close> to its \<^verbatim>\<open>error\<close>, to the
  failure's own \<^verbatim>\<open>message\<close>, to a fixed text; the template literals convert the status and the
  message to strings. The two variants of the server differ in the apostrophe of the hint only:
  the ASCII one in the server with the throttle, U+2019 (here its three UTF-8 bytes) in
  \<^verbatim>\<open>src/index.ts\<close>.
\<close>

definition permission_hint_with :: "string \<Rightarrow> string" where
  "permission_hint_with apostrophe =
     ''. This usually means your token lacks permission for that endpoint. Try using endpoints under /users/me/* (like /users/me/project_assignments), and verify HARVEST_ACCOUNT_ID matches the token''
     @ apostrophe @ ''s account.''"

definition permission_hint :: string where
  "permission_hint = permission_hint_with [CHR 0x27]"

definition permission_hint_v1 :: string where
  "permission_hint_v1 = permission_hint_with [CHR 0xE2, CHR 0x80, CHR 0x99]"

definition error_status :: "jsval \<Rightarrow> jsval" where
  "error_status error = opt_chain (opt_chain error ''response'') ''status''"

definition error_message :: "jsval \<Rightarrow> jsval" where
  "error_message error =
     (let apiMessage = js_or (opt_chain (opt_chain (opt_chain error ''response'') ''data'') ''message'')
                             (opt_chain (opt_chain (opt_chain error ''response'') ''data'') ''error'')
      in js_or (js_or apiMessage (opt_chain error ''message'')) (JStr ''Unknown error''))"

definition format_error :: "string \<Rightarrow> jsval \<Rightarrow> jsval + string" where
  "format_error hint error =
     (let status = error_status error;
          message = error_message error
      in if status = JNum 403
         then concat_res [Inr ''Harvest API error (403): '', toString_js message, Inr hint]
         else concat_res
                [Inr ''Harvest API error'',
                 if truthy status then concat_res [Inr '' ('', toString_js status, Inr '')'']
                 else Inr [],
                 Inr '': '', toString_js message])"

definition formatHarvestError :: "jsval \<Rightarrow> jsval + string" where
  "formatHarvestError error = format_error permission_hint error"

definition formatHarvestError_v1 :: "jsval \<Rightarrow> jsval + string" where
  "formatHarvestError_v1 error = format_error permission_hint_v1 error"

text \<open>
  \<^verbatim>\<open>sanitizeErrorForLogging\<close>: the truthy ones of four fields are pushed in a fixed order, the
  status and the code inside template literals, and joined; when the joined text is empty the
  whole value is converted with \<^verbatim>\<open>String\<close>.
\<close>

definition log_parts :: "jsval \<Rightarrow> jsval + jsval list" where
  "log_parts error =
     bind_res (if truthy (opt_chain (get_prop error ''response'') ''status'')
               then bind_res (toString_js (get_prop (get_prop error ''response'') ''status''))
                      (\<lambda>s. Inr [JStr (''HTTP '' @ s)])
               else Inr [])
       (\<lambda>status_part.
     bind_res (if truthy (get_prop error ''code'')
               then bind_res (toString_js (get_prop error ''code''))
                      (\<lambda>s. Inr [JStr (''code='' @ s)])
               else Inr [])
       (\<lambda>code_part.
         Inr ((if truthy (get_prop error ''message'') then [get_prop error ''message''] else [])
              @ status_part
              @ (if truthy (opt_chain (opt_chain (get_prop error ''response'') ''data'') ''message'')
                 then [get_prop (get_prop (get_prop error ''response'') ''data'') ''message'']
                 else [])
              @ code_part)))"

definition sanitizeErrorForLogging :: "jsval \<Rightarrow> jsval + string" where
  "sanitizeErrorForLogging error =
     (if \<not> truthy error then Inr ''Unknown error''
      else bind_res (log_parts error) (\<lambda>parts.
           bind_res (array_join '' | '' parts) (\<lambda>joined.
             if joined \<noteq> [] then Inr joined else toString_js error)))"

section \<open>Dates\<close>

text \<open>
  A \<^verbatim>\<open>Date\<close> is its time value, milliseconds since the epoch. \<^verbatim>\<open>toISOString\<close> renders the
  fields of the time value itself (UTC), never those of the host's time zone: the day number is
  \<open>t div msPerDay\<close>, and the calendar date of a day number is computed in the proleptic
  Gregorian calendar.
\<close>

definition msPerDay :: int where
  "msPerDay = 86400000"

definition civil_from_days :: "int \<Rightarrow> int \<times> int \<times> int" where
  "civil_from_days days =
     (let z = days + 719468;
          era = z div 146097;
          doe = z - era * 146097;
          yoe = (doe - doe div 1460 + doe div 36524 - doe div 146096) div 365;
          y = yoe + era * 400;
          doy = doe - (365 * yoe + yoe div 4 - yoe div 100);
          mp = (5 * doy + 2) div 153;
          d = doy - (153 * mp + 2) div 5 + 1;
          m = (if mp < 10 then mp + 3 else mp - 9)
      in (if m \<le> 2 then y + 1 else y, m, d))"

definition pad_left :: "nat \<Rightarrow> int \<Rightarrow> string" where
  "pad_left w n = replicate (w - length (decimal_digits n)) (CHR ''0'') @ decimal_digits n"

definition year_string :: "int \<Rightarrow> string" where
  "year_string y =
     (if 0 \<le> y \<and> y \<le> 9999 then pad_left 4 y
      else if y < 0 then ''-'' @ pad_left 6 (- y)
      else ''+'' @ pad_left 6 y)"

definition date_string :: "int \<times> int \<times> int \<Rightarrow> string" where
  "date_string ymd =
     (case ymd of (y, m, d) \<Rightarrow> year_string y @ ''-'' @ pad_left 2 m @ ''-'' @ pad_left 2 d)"

definition toISOString :: "int \<Rightarrow> string" where
  "toISOString t =
     (let ms = t mod msPerDay
      in date_string (civil_from_days (t div msPerDay))
         @ ''T'' @ pad_left 2 (ms div 3600000)
         @ '':'' @ pad_left 2 (ms div 60000 mod 60)
         @ '':'' @ pad_left 2 (ms div 1000 mod 60)
         @ ''.'' @ pad_left 3 (ms mod 1000)
         @ ''Z'')"

text \<open>\<^verbatim>\<open>String.prototype.split\<close> with a one-character separator.\<close>

fun split_char :: "char \<Rightarrow> string \<Rightarrow> string list" where
  "split_char c [] = [[]]"
| "split_char c (x # xs) =
     (if x = c then [] # split_char c xs
      else (case split_char c xs of [] \<Rightarrow> [[x]] | p # ps \<Rightarrow> (x # p) # ps))"

text \<open>\<^verbatim>\<open>formatDate\<close>: \<^verbatim>\<open>date.toISOString().split('T')[0]\<close>.\<close>

definition formatDate :: "int \<Rightarrow> string" where
  "formatDate date = hd (split_char (CHR ''T'') (toISOString date))"

section \<open>Upstream client and tool envelopes\<close>

text \<open>
  An outbound request is recorded as the verb, the path and what is sent with it. The upstream
  service is a parameter of every handler: given the requests made so far and the next one, it
  answers with the response body (\<open>Inr\<close>) or makes the call fail with a thrown value (\<open>Inl\<close>).
  The process state is the throttle's list of timestamps and the log of requests that left the
  process.
\<close>

datatype request =
    Get string "(string \<times> jsval) list"
  | Post string jsval
  | Patch string "jsval option"

type_synonym upstream = "request list \<Rightarrow> request \<Rightarrow> jsval + jsval"

record world =
  timestamps :: "int list"
  requests :: "request list"

definition call_upstream :: "upstream \<Rightarrow> request \<Rightarrow> world \<Rightarrow> (jsval + jsval) \<times> world" where
  "call_upstream up req w = (up (requests w) req, w\<lparr>requests := requests w @ [req]\<rparr>)"

text \<open>The envelope \<^verbatim>\<open>{content: [{type: "text", text}], isError?: true}\<close>.\<close>

record envelope =
  content_text :: string
  isError :: bool

definition ok_envelope :: "string \<Rightarrow> envelope" where
  "ok_envelope t = \<lparr>content_text = t, isError = False\<rparr>"

text \<open>
  The body of a \<^verbatim>\<open>catch\<close> block of the server with the throttle: the envelope is built around
  a template literal that calls \<^verbatim>\<open>formatHarvestError\<close>, so when that call throws, the
  \<^verbatim>\<open>catch\<close> block throws and the handler returns no envelope (\<open>Inl\<close>).
\<close>

definition error_envelope :: "string \<Rightarrow> jsval \<Rightarrow> jsval + envelope" where
  "error_envelope label error =
     bind_res (formatHarvestError error)
       (\<lambda>s. Inr \<lparr>content_text = label @ s, isError = True\<rparr>)"

text \<open>
  What a handler's \<^verbatim>\<open>try\<close> block computed, an envelope or a thrown value, turned into the
  handler's result by its \<^verbatim>\<open>catch\<close>.
\<close>

definition catch_with :: "string \<Rightarrow> jsval + envelope \<Rightarrow> jsval + envelope" where
  "catch_with label r = (case r of Inl e \<Rightarrow> error_envelope label e | Inr env \<Rightarrow> Inr env)"

text \<open>
  Array methods called on a value: they exist on arrays only. \<open>expr\<close> is the source text of the
  receiver, \<open>method\<close> the method's name.
\<close>

definition array_receiver :: "string \<Rightarrow> string \<Rightarrow> jsval \<Rightarrow> jsval + jsval list" where
  "array_receiver expr method v =
     (case v of
        JArr xs \<Rightarrow> Inr xs
      | JUndefined \<Rightarrow> Inl (type_error (''Cannot read properties of undefined (reading ''
                                        @ [CHR 0x27] @ method @ [CHR 0x27] @ '')''))
      | JNull \<Rightarrow> Inl (type_error (''Cannot read properties of null (reading ''
                                   @ [CHR 0x27] @ method @ [CHR 0x27] @ '')''))
      | _ \<Rightarrow> Inl (type_error (expr @ ''.'' @ method @ '' is not a function'')))"

fun map_res :: "('a \<Rightarrow> jsval + 'b) \<Rightarrow> 'a list \<Rightarrow> jsval + 'b list" where
  "map_res f [] = Inr []"
| "map_res f (x # xs) =
     bind_res (f x) (\<lambda>y. bind_res (map_res f xs) (\<lambda>ys. Inr (y # ys)))"

fun filter_res :: "('a \<Rightarrow> jsval + bool) \<Rightarrow> 'a list \<Rightarrow> jsval + 'a list" where
  "filter_res f [] = Inr []"
| "filter_res f (x # xs) =
     bind_res (f x) (\<lambda>keep. bind_res (filter_res f xs) (\<lambda>ys. Inr (if keep then x # ys else ys)))"

fun reduce_res :: "('a \<Rightarrow> 'b \<Rightarrow> jsval + 'a) \<Rightarrow> 'a \<Rightarrow> 'b list \<Rightarrow> jsval + 'a" where
  "reduce_res f acc [] = Inr acc"
| "reduce_res f acc (x # xs) = bind_res (f acc x) (\<lambda>acc'. reduce_res f acc' xs)"

section \<open>Pagination aggregator\<close>

text \<open>
  The spread \<^verbatim>\<open>push(...assignments)\<close> iterates an array or a string and throws on any
  other value.
\<close>

fun spread :: "jsval \<Rightarrow> jsval + jsval list" where
  "spread (JArr xs) = Inr xs"
| "spread (JStr s) = Inr (map (\<lambda>c. JStr [c]) s)"
| "spread v =
     Inl (type_error ''Spread syntax requires ...iterable[Symbol.iterator] to be a function'')"

definition assignments_request :: "jsval \<Rightarrow> request" where
  "assignments_request page =
     Get ''/users/me/project_assignments'' [(''per_page'', JNum 100), (''page'', page)]"

text \<open>
  The \<^verbatim>\<open>while (true)\<close> loop of \<^verbatim>\<open>getMyProjectAssignments\<close>: nothing bounds the number of
  pages, so the loop is a partial function, \<open>None\<close> when it never leaves.
\<close>

partial_function (option) fetch_pages ::
  "upstream \<Rightarrow> jsval \<Rightarrow> jsval list \<Rightarrow> world \<Rightarrow> ((jsval + jsval list) \<times> world) option"
where
  "fetch_pages up page allAssignments w =
     (case call_upstream up (assignments_request page) w of
        (Inl e, w') \<Rightarrow> Some (Inl e, w')
      | (Inr data, w') \<Rightarrow>
          (case member data ''project_assignments'' of
             Inl e \<Rightarrow> Some (Inl e, w')
           | Inr pa \<Rightarrow>
               (case spread (js_or pa (JArr [])) of
                  Inl e \<Rightarrow> Some (Inl e, w')
                | Inr assignments \<Rightarrow>
                    if truthy (get_prop data ''next_page'')
                    then fetch_pages up (get_prop data ''next_page'')
                           (allAssignments @ assignments) w'
                    else Some (Inr (allAssignments @ assignments), w'))))"

declare fetch_pages.simps [code]

definition getMyProjectAssignments ::
  "upstream \<Rightarrow> world \<Rightarrow> ((jsval + jsval list) \<times> world) option" where
  "getMyProjectAssignments up w = fetch_pages up (JNum 1) [] w"

section \<open>Tool handlers\<close>

text \<open>
  A handler returns its envelope and the process state it leaves; the result is \<open>Inl\<close> when the
  handler itself throws, which only its \<^verbatim>\<open>catch\<close> block can do. \<open>stringify\<close> stands for
  \<^verbatim>\<open>JSON.stringify(\<cdot>, null, 2)\<close>. The arguments of a handler are the values its input schema
  admits: integers for the identifiers, a number for the hours, strings for the date and the
  notes, \<open>None\<close> for an optional argument that was not supplied.
\<close>

fun is_number :: "jsval \<Rightarrow> bool" where
  "is_number (JNum q) = True"
| "is_number JNaN = True"
| "is_number JPosInf = True"
| "is_number JNegInf = True"
| "is_number v = False"

fun is_string :: "jsval \<Rightarrow> bool" where
  "is_string (JStr s) = True"
| "is_string v = False"

subsection \<open>list\_projects\<close>




subsection \<open>list\_project\_tasks\<close>

text \<open>\<^verbatim>\<open>projectAssignments.find((pa) => pa.project?.id === project_id)\<close>.\<close>

fun find_assignment :: "int \<Rightarrow> jsval list \<Rightarrow> jsval + jsval" where
  "find_assignment project_id [] = Inr JUndefined"
| "find_assignment project_id (pa # pas) =
     bind_res (member pa ''project'')
       (\<lambda>project. if opt_chain project ''id'' = JNum (of_int project_id) then Inr pa
                   else find_assignment project_id pas)"

definition no_assignment_text :: "int \<Rightarrow> string" where
  "no_assignment_text project_id =
     ''No project assignment found for project_id '' @ number_toString (of_int project_id)
     @ ''. If this project exists but isn't listed, you may not be assigned to it in Harvest.''"

definition task_summary :: "jsval \<Rightarrow> jsval" where
  "task_summary ta =
     JObj [(''id'', opt_chain (get_prop ta ''task'') ''id''),
           (''name'', opt_chain (get_prop ta ''task'') ''name''),
           (''is_active'', get_prop ta ''is_active''),
           (''billable'', get_prop ta ''billable''),
           (''hourly_rate'', get_prop ta ''hourly_rate'')]"

definition active_tasks :: "jsval \<Rightarrow> jsval + jsval list" where
  "active_tasks assignment =
     bind_res (array_receiver ''(assignment.task_assignments || [])'' ''filter''
                 (js_or (get_prop assignment ''task_assignments'') (JArr [])))
       (\<lambda>tas. bind_res (filter_res (\<lambda>ta. bind_res (member ta ''is_active'') (\<lambda>a. Inr (truthy a))) tas)
         (\<lambda>active. Inr (filter (\<lambda>t. is_number (get_prop t ''id'') \<and> is_string (get_prop t ''name''))
                            (map task_summary active))))"

text \<open>The handler; the result is \<open>None\<close> when the aggregator never returns.\<close>

definition list_project_tasks ::
  "upstream \<Rightarrow> (jsval \<Rightarrow> string) \<Rightarrow> int \<Rightarrow> world \<Rightarrow> ((jsval + envelope) \<times> world) option"
where
  "list_project_tasks up stringify project_id w =
     (case getMyProjectAssignments up w of
        None \<Rightarrow> None
      | Some (r, w') \<Rightarrow>
          Some (catch_with ''Error fetching tasks: ''
                  (bind_res r (\<lambda>projectAssignments.
                   bind_res (find_assignment project_id projectAssignments) (\<lambda>assignment.
                     if \<not> truthy assignment
                     then Inr \<lparr>content_text = no_assignment_text project_id, isError = True\<rparr>
                     else bind_res (active_tasks assignment)
                            (\<lambda>tasks. Inr (ok_envelope (stringify (JArr tasks))))))),
                w'))"

subsection \<open>The mutating tools\<close>

definition throttled :: "int \<Rightarrow> world \<Rightarrow> (jsval + unit) \<times> world" where
  "throttled now w =
     (case checkRateLimit now (timestamps w) of (r, ts) \<Rightarrow> (r, w\<lparr>timestamps := ts\<rparr>))"

text \<open>\<^verbatim>\<open>x || fallback\<close> for an optional string argument.\<close>

definition or_default :: "string option \<Rightarrow> string \<Rightarrow> string" where
  "or_default x fallback = (case x of None \<Rightarrow> fallback | Some s \<Rightarrow> if s \<noteq> [] then s else fallback)"

text \<open>
  The pieces of the success texts: \<^verbatim>\<open>${v.k}\<close>, \<^verbatim>\<open>${v.k1.k2}\<close> and
  \<^verbatim>\<open>${entry.notes || "No notes"}\<close>.
\<close>

definition member2_text :: "jsval \<Rightarrow> string \<Rightarrow> string \<Rightarrow> jsval + string" where
  "member2_text v k1 k2 = bind_res (member v k1) (\<lambda>inner. member_text inner k2)"

definition notes_text :: "jsval \<Rightarrow> jsval + string" where
  "notes_text entry =
     bind_res (member entry ''notes'') (\<lambda>n. toString_js (js_or n (JStr ''No notes'')))"

definition log_time_text :: "jsval \<Rightarrow> jsval + string" where
  "log_time_text entry =
     concat_res
       [Inr ''Successfully logged '', member_text entry ''hours'',
        Inr '' hours to '', member2_text entry ''project'' ''name'',
        Inr '' - '', member2_text entry ''task'' ''name'', Inr ''\<newline>'',
        Inr ''Date: '', member_text entry ''spent_date'', Inr ''\<newline>'',
        Inr ''Notes: '', notes_text entry, Inr ''\<newline>'',
        Inr ''Entry ID: '', member_text entry ''id'']"

text \<open>
  \<^verbatim>\<open>log_time\<close>. The clock is read twice: \<open>t_limit\<close> by the throttle, \<open>t_date\<close> for the default
  date.
\<close>

definition log_time_request ::
  "int \<Rightarrow> int \<Rightarrow> int \<Rightarrow> string option \<Rightarrow> rat \<Rightarrow> string option \<Rightarrow> request" where
  "log_time_request t_date project_id task_id spent_date hours notes =
     (let dateToLog = or_default spent_date (formatDate t_date)
      in Post ''/time_entries''
           (JObj [(''project_id'', JNum (of_int project_id)),
                  (''task_id'', JNum (of_int task_id)),
                  (''spent_date'', JStr dateToLog),
                  (''hours'', JNum hours),
                  (''notes'', JStr (or_default notes []))]))"

definition log_time ::
  "upstream \<Rightarrow> int \<Rightarrow> int \<Rightarrow> int \<Rightarrow> int \<Rightarrow> string option \<Rightarrow> rat \<Rightarrow> string option
     \<Rightarrow> world \<Rightarrow> (jsval + envelope) \<times> world" where
  "log_time up t_limit t_date project_id task_id spent_date hours notes w =
     (case throttled t_limit w of
        (Inl e, w1) \<Rightarrow> (error_envelope ''Error logging time: '' e, w1)
      | (Inr u, w1) \<Rightarrow>
          (case call_upstream up
                  (log_time_request t_date project_id task_id spent_date hours notes) w1 of
             (r, w2) \<Rightarrow>
               (catch_with ''Error logging time: ''
                  (bind_res r (\<lambda>entry. bind_res (log_time_text entry)
                     (\<lambda>t. Inr (ok_envelope t)))), w2)))"

definition start_timer_text :: "jsval \<Rightarrow> jsval + string" where
  "start_timer_text entry =
     concat_res
       [Inr ''Timer started for '', member2_text entry ''project'' ''name'',
        Inr '' - '', member2_text entry ''task'' ''name'', Inr ''\<newline>'',
        Inr ''Entry ID: '', member_text entry ''id'', Inr ''\<newline>'',
        Inr ''Notes: '', notes_text entry]"

definition start_timer_request :: "int \<Rightarrow> int \<Rightarrow> int \<Rightarrow> string option \<Rightarrow> request" where
  "start_timer_request t_date project_id task_id notes =
     Post ''/time_entries''
       (JObj [(''project_id'', JNum (of_int project_id)),
              (''task_id'', JNum (of_int task_id)),
              (''spent_date'', JStr (formatDate t_date)),
              (''notes'', JStr (or_default notes []))])"

definition start_timer ::
  "upstream \<Rightarrow> int \<Rightarrow> int \<Rightarrow> int \<Rightarrow> int \<Rightarrow> string option \<Rightarrow> world
     \<Rightarrow> (jsval + envelope) \<times> world" where
  "start_timer up t_limit t_date project_id task_id notes w =
     (case throttled t_limit w of
        (Inl e, w1) \<Rightarrow> (error_envelope ''Error starting timer: '' e, w1)
      | (Inr u, w1) \<Rightarrow>
          (case call_upstream up (start_timer_request t_date project_id task_id notes) w1 of
             (r, w2) \<Rightarrow>
               (catch_with ''Error starting timer: ''
                  (bind_res r (\<lambda>entry. bind_res (start_timer_text entry)
                     (\<lambda>t. Inr (ok_envelope t)))), w2)))"

definition stop_timer_text :: "jsval \<Rightarrow> jsval + string" where
  "stop_timer_text entry =
     concat_res
       [Inr ''Timer stopped. Logged '', member_text entry ''hours'',
        Inr '' hours to '', member2_text entry ''project'' ''name'',
        Inr '' - '', member2_text entry ''task'' ''name'']"

definition stop_timer_request :: "int \<Rightarrow> request" where
  "stop_timer_request time_entry_id =
     Patch (''/time_entries/'' @ number_toString (of_int time_entry_id) @ ''/stop'') None"

definition stop_timer ::
  "upstream \<Rightarrow> int \<Rightarrow> int \<Rightarrow> world \<Rightarrow> (jsval + envelope) \<times> world" where
  "stop_timer up t_limit time_entry_id w =
     (case throttled t_limit w of
        (Inl e, w1) \<Rightarrow> (error_envelope ''Error stopping timer: '' e, w1)
      | (Inr u, w1) \<Rightarrow>
          (case call_upstream up (stop_timer_request time_entry_id) w1 of
             (r, w2) \<Rightarrow>
               (catch_with ''Error stopping timer: ''
                  (bind_res r (\<lambda>entry. bind_res (stop_timer_text entry)
                     (\<lambda>t. Inr (ok_envelope t)))), w2)))"

text \<open>
  \<^verbatim>\<open>update_time_entry\<close>: \<open>updateData\<close> starts empty and receives, in this order, each argument
  that is not \<^verbatim>\<open>undefined\<close>.
\<close>

definition updateData ::
  "int option \<Rightarrow> int option \<Rightarrow> string option \<Rightarrow> rat option \<Rightarrow> string option
     \<Rightarrow> (string \<times> jsval) list" where
  "updateData project_id task_id spent_date hours notes =
     (case project_id of None \<Rightarrow> [] | Some p \<Rightarrow> [(''project_id'', JNum (of_int p))])
     @ (case task_id of None \<Rightarrow> [] | Some t \<Rightarrow> [(''task_id'', JNum (of_int t))])
     @ (case spent_date of None \<Rightarrow> [] | Some d \<Rightarrow> [(''spent_date'', JStr d)])
     @ (case hours of None \<Rightarrow> [] | Some h \<Rightarrow> [(''hours'', JNum h)])
     @ (case notes of None \<Rightarrow> [] | Some n \<Rightarrow> [(''notes'', JStr n)])"

definition update_text :: "jsval \<Rightarrow> jsval + string" where
  "update_text entry =
     concat_res
       [Inr ''Successfully updated time entry '', member_text entry ''id'', Inr ''\<newline>'',
        Inr ''Project: '', member2_text entry ''project'' ''name'', Inr ''\<newline>'',
        Inr ''Task: '', member2_text entry ''task'' ''name'', Inr ''\<newline>'',
        Inr ''Hours: '', member_text entry ''hours'', Inr ''\<newline>'',
        Inr ''Date: '', member_text entry ''spent_date'', Inr ''\<newline>'',
        Inr ''Notes: '', notes_text entry]"

definition update_request ::
  "int \<Rightarrow> int option \<Rightarrow> int option \<Rightarrow> string option \<Rightarrow> rat option \<Rightarrow> string option
     \<Rightarrow> request" where
  "update_request time_entry_id project_id task_id spent_date hours notes =
     Patch (''/time_entries/'' @ number_toString (of_int time_entry_id))
       (Some (JObj (updateData project_id task_id spent_date hours notes)))"

definition update_time_entry ::
  "upstream \<Rightarrow> int \<Rightarrow> int \<Rightarrow> int option \<Rightarrow> int option \<Rightarrow> string option \<Rightarrow> rat option
     \<Rightarrow> string option \<Rightarrow> world \<Rightarrow> (jsval + envelope) \<times> world" where
  "update_time_entry up t_limit time_entry_id project_id task_id spent_date hours notes w =
     (case throttled t_limit w of
        (Inl e, w1) \<Rightarrow> (error_envelope ''Error updating time entry: '' e, w1)
      | (Inr u, w1) \<Rightarrow>
          (case call_upstream up
                  (update_request time_entry_id project_id task_id spent_date hours notes) w1 of
             (r, w2) \<Rightarrow>
               (catch_with ''Error updating time entry: ''
                  (bind_res r (\<lambda>entry. bind_res (update_text entry)
                     (\<lambda>t. Inr (ok_envelope t)))), w2)))"

subsection \<open>get\_todays\_time\<close>

text \<open>
  The binary \<^verbatim>\<open>+\<close>: an array, an object or an \<^verbatim>\<open>Error\<close> is first converted to a string (which
  can throw); when either side is then a string the two are concatenated, otherwise both are
  converted to numbers and added as doubles: the exact sum of two finite numbers is rounded to
  the nearest double.
\<close>

fun to_primitive :: "jsval \<Rightarrow> jsval + jsval" where
  "to_primitive (JArr xs) = bind_res (toString_js (JArr xs)) (\<lambda>s. Inr (JStr s))"
| "to_primitive (JObj kvs) = bind_res (toString_js (JObj kvs)) (\<lambda>s. Inr (JStr s))"
| "to_primitive (JErr n m kvs) = bind_res (toString_js (JErr n m kvs)) (\<lambda>s. Inr (JStr s))"
| "to_primitive v = Inr v"

text \<open>\<^verbatim>\<open>ToNumber\<close> of a primitive that is not a string.\<close>

fun to_number :: "jsval \<Rightarrow> jsval" where
  "to_number (JNum q) = JNum q"
| "to_number JPosInf = JPosInf"
| "to_number JNegInf = JNegInf"
| "to_number JNull = JNum 0"
| "to_number (JBool b) = JNum (if b then 1 else 0)"
| "to_number v = JNaN"

definition num_add :: "jsval \<Rightarrow> jsval \<Rightarrow> jsval" where
  "num_add a b =
     (case (a, b) of
        (JNum x, JNum y) \<Rightarrow> to_double (x + y)
      | _ \<Rightarrow> if a = JNaN \<or> b = JNaN then JNaN
             else if (a = JPosInf \<and> b = JNegInf) \<or> (a = JNegInf \<and> b = JPosInf) then JNaN
             else if a = JPosInf \<or> b = JPosInf then JPosInf
             else JNegInf)"

definition js_add :: "jsval \<Rightarrow> jsval \<Rightarrow> jsval + jsval" where
  "js_add a b =
     bind_res (to_primitive a) (\<lambda>pa.
     bind_res (to_primitive b) (\<lambda>pb.
       if is_string pa \<or> is_string pb
       then Inr (JStr (toString_raw pa @ toString_raw pb))
       else Inr (num_add (to_number pa) (to_number pb))))"

text \<open>
  \<^verbatim>\<open>Number.prototype.toFixed(2)\<close> on a finite double below \<open>10\<^sup>2\<^sup>1\<close> in magnitude: the sign, then
  the integer \<open>n\<close> for which \<open>n / 100\<close> is nearest to the exact magnitude of the double (the larger
  one of two), written with at least three digits and a point before the last two. From
  \<open>10\<^sup>2\<^sup>1\<close> on the result is that of \<^verbatim>\<open>Number::toString\<close>.
\<close>

definition toFixed2 :: "rat \<Rightarrow> string" where
  "toFixed2 x =
     (let a = (if x < 0 then - x else x)
      in if 10 ^ 21 \<le> a then number_toString x
         else (let m = decimal_digits \<lfloor>100 * a + 1 / 2\<rfloor>;
                   m' = replicate (3 - length m) (CHR ''0'') @ m
               in (if x < 0 then ''-'' else [])
                  @ take (length m' - 2) m' @ ''.'' @ drop (length m' - 2) m'))"

text \<open>The call \<^verbatim>\<open>totalHours.toFixed(2)\<close> on whatever the reduction produced.\<close>

fun call_toFixed2 :: "jsval \<Rightarrow> jsval + string" where
  "call_toFixed2 (JNum q) = Inr (toFixed2 q)"
| "call_toFixed2 JNaN = Inr ''NaN''"
| "call_toFixed2 JPosInf = Inr ''Infinity''"
| "call_toFixed2 JNegInf = Inr ''-Infinity''"
| "call_toFixed2 JUndefined =
     Inl (type_error ''Cannot read properties of undefined (reading 'toFixed')'')"
| "call_toFixed2 JNull =
     Inl (type_error ''Cannot read properties of null (reading 'toFixed')'')"
| "call_toFixed2 v = Inl (type_error ''totalHours.toFixed is not a function'')"

definition entry_summary :: "jsval \<Rightarrow> jsval + jsval" where
  "entry_summary e =
     bind_res (member e ''id'') (\<lambda>i.
     bind_res (member e ''project'') (\<lambda>project.
     bind_res (member project ''name'') (\<lambda>pname.
     bind_res (member e ''task'') (\<lambda>task.
     bind_res (member task ''name'') (\<lambda>tname.
       Inr (JObj [(''id'', i), (''project'', pname), (''task'', tname),
                  (''hours'', get_prop e ''hours''),
                  (''notes'', get_prop e ''notes''),
                  (''is_running'', get_prop e ''is_running'')]))))))"

text \<open>\<^verbatim>\<open>entries.reduce((sum, e) => sum + e.hours, 0)\<close>.\<close>

definition totalHours :: "jsval list \<Rightarrow> jsval + jsval" where
  "totalHours entries = reduce_res (\<lambda>sum e. js_add sum (get_prop e ''hours'')) (JNum 0) entries"

definition todays_text :: "(jsval \<Rightarrow> string) \<Rightarrow> jsval \<Rightarrow> jsval + string" where
  "todays_text stringify data =
     bind_res (member data ''time_entries'') (\<lambda>te.
     bind_res (array_receiver ''response.data.time_entries'' ''map'' te) (\<lambda>es.
     bind_res (map_res entry_summary es) (\<lambda>entries.
     bind_res (totalHours entries) (\<lambda>total.
     bind_res (call_toFixed2 total) (\<lambda>hours.
       Inr (''Today's time entries ('' @ number_toString (of_nat (length entries))
            @ '' total, '' @ hours @ '' hours):\<newline>\<newline>''
            @ stringify (JArr entries)))))))"

definition todays_request :: "int \<Rightarrow> request" where
  "todays_request now =
     (let today = formatDate now
      in Get ''/time_entries'' [(''from'', JStr today), (''to'', JStr today)])"

definition get_todays_time ::
  "upstream \<Rightarrow> (jsval \<Rightarrow> string) \<Rightarrow> int \<Rightarrow> world \<Rightarrow> (jsval + envelope) \<times> world" where
  "get_todays_time up stringify now w =
     (case call_upstream up (todays_request now) w of
        (r, w') \<Rightarrow>
          (catch_with ''Error fetching today's time: ''
             (bind_res r (\<lambda>data. bind_res (todays_text stringify data)
                (\<lambda>t. Inr (ok_envelope t)))), w'))"


section \<open>Sequences of write attempts\<close>

text \<open>
  A sequence of admission checks, one per clock reading, from a given list of timestamps: which
  attempts were admitted, and the list left behind.
\<close>

fun run_attempts :: "int list \<Rightarrow> int list \<Rightarrow> bool list \<times> int list" where
  "run_attempts [] stamps = ([], stamps)"
| "run_attempts (t # ts) stamps =
     (case checkRateLimit t stamps of
        (r, stamps') \<Rightarrow>
          (case run_attempts ts stamps' of (bs, stamps'') \<Rightarrow> ((\<not> isl r) # bs, stamps'')))"

text \<open>Thirty write attempts, one per second, for the concrete runs below.\<close>

definition thirty_writes :: "int list" where
  "thirty_writes =
     [0, 1000, 2000, 3000, 4000, 5000, 6000, 7000, 8000, 9000,
      10000, 11000, 12000, 13000, 14000, 15000, 16000, 17000, 18000, 19000,
      20000, 21000, 22000, 23000, 24000, 25000, 26000, 27000, 28000, 29000]"

section \<open>Paged upstream answers\<close>

text \<open>
  An upstream that serves the project assignments in the pages \<open>pages\<close>, each given as the value
  that requests it and the assignments on it: the first page is requested as page 1; whatever
  was requested before, the request for a page is answered with a body whose
  \<^verbatim>\<open>project_assignments\<close> is that page and whose \<^verbatim>\<open>next_page\<close> is the (truthy) value that
  requests the following page, or a falsy value (absent, \<^verbatim>\<open>null\<close>) on the last page.
\<close>

definition serves_pages :: "upstream \<Rightarrow> (jsval \<times> jsval list) list \<Rightarrow> bool" where
  "serves_pages up pages \<longleftrightarrow>
     pages \<noteq> [] \<and> fst (hd pages) = JNum 1 \<and>
     (\<forall>sent i. i < length pages \<longrightarrow>
        (\<exists>data. up sent (assignments_request (fst (pages ! i))) = Inr data
           \<and> get_prop data ''project_assignments'' = JArr (snd (pages ! i))
           \<and> (if Suc i < length pages
               then get_prop data ''next_page'' = fst (pages ! Suc i)
                    \<and> truthy (fst (pages ! Suc i))
               else \<not> truthy (get_prop data ''next_page''))))"

text \<open>A concrete upstream with five assignments on three pages, the last page partial.\<close>

definition example_assignment :: "int \<Rightarrow> jsval" where
  "example_assignment n = JObj [(''project'', JObj [(''id'', JNum (of_int n))])]"

definition three_pages :: "(jsval \<times> jsval list) list" where
  "three_pages =
     [(JNum 1, [example_assignment 101, example_assignment 102]),
      (JNum 2, [example_assignment 103, example_assignment 104]),
      (JNum 3, [example_assignment 105])]"

definition three_page_upstream :: upstream where
  "three_page_upstream sent req =
     (if req = assignments_request (JNum 1)
      then Inr (JObj [(''project_assignments'', JArr (snd (three_pages ! 0))),
                      (''next_page'', JNum 2)])
      else if req = assignments_request (JNum 2)
      then Inr (JObj [(''project_assignments'', JArr (snd (three_pages ! 1))),
                      (''next_page'', JNum 3)])
      else if req = assignments_request (JNum 3)
      then Inr (JObj [(''project_assignments'', JArr (snd (three_pages ! 2))),
                      (''next_page'', JNull)])
      else Inl (mk_error ''Request failed with status code 404''))"

section \<open>Failures of an upstream call, as the HTTP client throws them\<close>

text \<open>
  The client's error is an instance of \<^verbatim>\<open>Error\<close> named \<^verbatim>\<open>AxiosError\<close> that carries the
  transport code, the outgoing request's configuration (headers included) and, when the
  upstream answered, the response. Below: a rejected request, a server failure whose body has
  an \<^verbatim>\<open>error\<close> field, a transport failure without a response, and a server failure whose body
  is the JSON text \<^verbatim>\<open>{"message": {"toString": 1}}\<close>.
\<close>

definition request_config :: jsval where
  "request_config =
     JObj [(''headers'', JObj [(''Authorization'', JStr ''Bearer tok123''),
                               (''Harvest-Account-Id'', JStr ''777'')])]"

definition forbidden_error :: jsval where
  "forbidden_error =
     JErr (JStr ''AxiosError'') (JStr ''Request failed with status code 403'')
       [(''code'', JStr ''ERR_BAD_REQUEST''),
        (''config'', request_config),
        (''response'', JObj [(''status'', JNum 403),
                             (''data'', JObj [(''message'', JStr ''Forbidden'')])])]"

definition server_error :: jsval where
  "server_error =
     JErr (JStr ''AxiosError'') (JStr ''Request failed with status code 500'')
       [(''code'', JStr ''ERR_BAD_RESPONSE''),
        (''config'', request_config),
        (''response'', JObj [(''status'', JNum 500),
                             (''data'', JObj [(''error'', JStr ''boom'')])])]"

definition network_error :: jsval where
  "network_error =
     JErr (JStr ''AxiosError'') (JStr ''Network Error'')
       [(''code'', JStr ''ERR_NETWORK''), (''config'', request_config)]"

definition unprintable_error :: jsval where
  "unprintable_error =
     JErr (JStr ''AxiosError'') (JStr ''Request failed with status code 500'')
       [(''code'', JStr ''ERR_BAD_RESPONSE''),
        (''config'', request_config),
        (''response'', JObj [(''status'', JNum 500),
                             (''data'', JObj [(''message'', JObj [(''toString'', JNum 1)])])])]"

text \<open>A failure that is a thrown string rather than an object.\<close>

definition thrown_text :: jsval where
  "thrown_text = JStr ''Invalid credentials: Bearer tok123''"

text \<open>
  The four fields \<^verbatim>\<open>sanitizeErrorForLogging\<close> reads: the top-level message, the response's
  status, the upstream body's message and the transport error code.
\<close>

definition allow_listed_fields :: "jsval \<Rightarrow> jsval list" where
  "allow_listed_fields e =
     [get_prop e ''message'',
      get_prop (get_prop e ''response'') ''status'',
      get_prop (get_prop (get_prop e ''response'') ''data'') ''message'',
      get_prop e ''code'']"

text \<open>
  The text the allow-list stands for: of the four fields, in this order, those that are truthy,
  each converted to a string, the status after \<^verbatim>\<open>HTTP\<close> and the code after \<^verbatim>\<open>code=\<close>, joined
  with a bar between spaces.
\<close>

definition labelled :: "string \<Rightarrow> jsval \<Rightarrow> string list" where
  "labelled label v = (if truthy v then [label @ toString_raw v] else [])"

fun allow_list_text :: "jsval list \<Rightarrow> string" where
  "allow_list_text [message, status, body_message, code] =
     join_strings '' | ''
       (labelled [] message @ labelled ''HTTP '' status @ labelled [] body_message
        @ labelled ''code='' code)"
| "allow_list_text other = []"

text \<open>
  The fields \<^verbatim>\<open>formatHarvestError\<close> chooses the message from: the upstream body's \<^verbatim>\<open>message\<close>
  and \<^verbatim>\<open>error\<close>, and the failure's own \<^verbatim>\<open>message\<close>.
\<close>

definition body_field :: "jsval \<Rightarrow> string \<Rightarrow> jsval" where
  "body_field e k = get_prop (get_prop (get_prop e ''response'') ''data'') k"

section \<open>Time entries as the upstream returns them\<close>

text \<open>
  A time entry as the data model has it: an object with an embedded project and task and a
  numeric \<^verbatim>\<open>hours\<close>, a finite double. \<open>summary_of\<close> is the object the handler builds from such
  an entry, \<open>float_sum\<close> the sum of doubles from zero in the order of the list, every addition
  rounded to the nearest double.
\<close>

definition hours_of :: "jsval \<Rightarrow> rat" where
  "hours_of e = (case get_prop e ''hours'' of JNum h \<Rightarrow> h | _ \<Rightarrow> 0)"

definition well_formed_entry :: "jsval \<Rightarrow> bool" where
  "well_formed_entry e \<longleftrightarrow>
     \<not> nullish e \<and> \<not> nullish (get_prop e ''project'') \<and> \<not> nullish (get_prop e ''task'')
     \<and> (case get_prop e ''hours'' of JNum h \<Rightarrow> is_double h | _ \<Rightarrow> False)"

definition summary_of :: "jsval \<Rightarrow> jsval" where
  "summary_of e =
     JObj [(''id'', get_prop e ''id''),
           (''project'', get_prop (get_prop e ''project'') ''name''),
           (''task'', get_prop (get_prop e ''task'') ''name''),
           (''hours'', get_prop e ''hours''),
           (''notes'', get_prop e ''notes''),
           (''is_running'', get_prop e ''is_running'')]"

definition float_sum :: "rat list \<Rightarrow> jsval" where
  "float_sum hs = foldl (\<lambda>acc h. num_add acc (JNum h)) (JNum 0) hs"

definition is_digit :: "char \<Rightarrow> bool" where
  "is_digit c \<longleftrightarrow> c \<in> set ''0123456789''"

definition example_entry :: "int \<Rightarrow> rat \<Rightarrow> jsval" where
  "example_entry n h =
     JObj [(''id'', JNum (of_int n)), (''project'', JObj [(''name'', JStr ''Website'')]),
           (''task'', JObj [(''name'', JStr ''Design'')]), (''hours'', JNum h),
           (''notes'', JNull), (''is_running'', JBool False)]"

definition three_entries :: "jsval list" where
  "three_entries = [example_entry 1 1, example_entry 2 (9 / 4), example_entry 3 (1 / 2)]"

section \<open>The host's local calendar date\<close>

text \<open>
  For comparison with the server's notion of today: the calendar date of an instant on a host
  whose local time is \<open>offset_minutes\<close> ahead of UTC.
\<close>

definition local_date :: "int \<Rightarrow> int \<Rightarrow> string" where
  "local_date offset_minutes t =
     date_string (civil_from_days ((t + offset_minutes * 60000) div msPerDay))"

section \<open>Properties of the write throttle\<close>

lemma checkRateLimit_admit:
  "length (filter (\<lambda>ts. now - ts < 60000) stamps) < 30 \<Longrightarrow>
   checkRateLimit now stamps = (Inr (), filter (\<lambda>ts. now - ts < 60000) stamps @ [now])"
  by (simp add: checkRateLimit_def RATE_LIMIT_WINDOW_MS_def RATE_LIMIT_MAX_WRITES_def Let_def)

lemma checkRateLimit_reject:
  "30 \<le> length (filter (\<lambda>ts. now - ts < 60000) stamps) \<Longrightarrow>
   checkRateLimit now stamps
     = (Inl (mk_error rate_limit_message), filter (\<lambda>ts. now - ts < 60000) stamps)"
  by (simp add: checkRateLimit_def RATE_LIMIT_WINDOW_MS_def RATE_LIMIT_MAX_WRITES_def Let_def)

lemma filter_all_recent:
  "\<forall>a\<in>set stamps. now - a < 60000 \<Longrightarrow> filter (\<lambda>ts. now - ts < 60000) stamps = stamps"
  by (induction stamps) auto

lemma run_attempts_all_admitted:
  "length stamps + length ats \<le> 30 \<Longrightarrow>
   \<forall>a\<in>set stamps \<union> set ats. \<forall>b\<in>set stamps \<union> set ats. a - b < 60000 \<Longrightarrow>
   run_attempts ats stamps = (replicate (length ats) True, stamps @ ats)"
proof (induction ats arbitrary: stamps)
  case Nil
  then show ?case by simp
next
  case (Cons t ts)
  have recent: "\<forall>a\<in>set stamps. t - a < 60000"
    using Cons.prems(2) by simp
  have keep: "filter (\<lambda>x. t - x < 60000) stamps = stamps"
    using recent by (rule filter_all_recent)
  have room: "length (filter (\<lambda>x. t - x < 60000) stamps) < 30"
    using Cons.prems(1) keep by simp
  have step: "checkRateLimit t stamps = (Inr (), stamps @ [t])"
    using checkRateLimit_admit [OF room] keep by simp
  have "length (stamps @ [t]) + length ts \<le> 30"
    using Cons.prems(1) by simp
  moreover have "\<forall>a\<in>set (stamps @ [t]) \<union> set ts. \<forall>b\<in>set (stamps @ [t]) \<union> set ts. a - b < 60000"
    using Cons.prems(2) by auto
  ultimately have "run_attempts ts (stamps @ [t]) = (replicate (length ts) True, (stamps @ [t]) @ ts)"
    by (rule Cons.IH)
  then show ?case using step by simp
qed

lemma rate_limit_text:
  "formatHarvestError (mk_error rate_limit_message)
     = Inr ''Harvest API error: Rate limit exceeded: maximum 30 write operations per 60s. Please wait before retrying.''"
  by code_simp

lemma Min_old_filter:
  assumes "stamps \<noteq> []" and "60000 \<le> now - Min (set stamps)"
  shows "length (filter (\<lambda>ts. now - ts < 60000) stamps) < length stamps"
proof -
  have "Min (set stamps) \<in> set stamps" using assms(1) by (simp add: Min_in)
  moreover have "\<not> now - Min (set stamps) < 60000" using assms(2) by simp
  ultimately show ?thesis by (meson length_filter_less)
qed

lemma throttled_rejected:
  "fst (checkRateLimit t (timestamps w)) = Inl e \<Longrightarrow>
   throttled t w = (Inl e, w\<lparr>timestamps := snd (checkRateLimit t (timestamps w))\<rparr>)"
  by (cases "checkRateLimit t (timestamps w)") (simp add: throttled_def)

lemma throttled_admitted:
  "fst (checkRateLimit t (timestamps w)) = Inr u \<Longrightarrow>
   throttled t w = (Inr u, w\<lparr>timestamps := snd (checkRateLimit t (timestamps w))\<rparr>)"
  by (cases "checkRateLimit t (timestamps w)") (simp add: throttled_def)

lemma log_time_rejected:
  "fst (checkRateLimit t (timestamps w)) = Inl e \<Longrightarrow>
   log_time up t t_date project_id task_id spent_date hours notes w
     = (error_envelope ''Error logging time: '' e,
        w\<lparr>timestamps := snd (checkRateLimit t (timestamps w))\<rparr>)"
  by (simp add: log_time_def throttled_rejected)

lemma start_timer_rejected:
  "fst (checkRateLimit t (timestamps w)) = Inl e \<Longrightarrow>
   start_timer up t t_date project_id task_id notes w
     = (error_envelope ''Error starting timer: '' e,
        w\<lparr>timestamps := snd (checkRateLimit t (timestamps w))\<rparr>)"
  by (simp add: start_timer_def throttled_rejected)

lemma stop_timer_rejected:
  "fst (checkRateLimit t (timestamps w)) = Inl e \<Longrightarrow>
   stop_timer up t time_entry_id w
     = (error_envelope ''Error stopping timer: '' e,
        w\<lparr>timestamps := snd (checkRateLimit t (timestamps w))\<rparr>)"
  by (simp add: stop_timer_def throttled_rejected)

lemma update_time_entry_rejected:
  "fst (checkRateLimit t (timestamps w)) = Inl e \<Longrightarrow>
   update_time_entry up t time_entry_id project_id task_id spent_date hours notes w
     = (error_envelope ''Error updating time entry: '' e,
        w\<lparr>timestamps := snd (checkRateLimit t (timestamps w))\<rparr>)"
  by (simp add: update_time_entry_def throttled_rejected)

text \<open>
  Claim C1. With the ceiling of 30 and the window of 60 seconds: thirty write attempts whose
  clock readings lie within less than the window of each other are all admitted from the empty
  list of timestamps; a further attempt while the earliest timestamp is still inside the window
  is rejected with the throttling error, changes neither the list of timestamps nor the log of
  outbound requests, and the tool reports the throttling message; an attempt once the window
  has elapsed past the earliest timestamp is admitted again. In general the check prunes the
  timestamps that are a full window old, admits exactly when fewer than 30 remain, and appends
  the current reading only when it admits.
\<close>

theorem write_throttle_window:
  assumes len: "length ats = 30"
    and within: "\<forall>a\<in>set ats. \<forall>b\<in>set ats. a - b < 60000"
  shows "run_attempts ats [] = (replicate 30 True, ats)
    \<and> (\<forall>t. t - Min (set ats) < 60000 \<longrightarrow>
          checkRateLimit t ats = (Inl (mk_error rate_limit_message), ats)
          \<and> log_time up t t_date project_id task_id spent_date hours notes
               \<lparr>timestamps = ats, requests = sent\<rparr>
             = (Inr \<lparr>content_text = ''Error logging time: Harvest API error: Rate limit exceeded: maximum 30 write operations per 60s. Please wait before retrying.'',
                     isError = True\<rparr>,
                \<lparr>timestamps = ats, requests = sent\<rparr>))
    \<and> (\<forall>t. 60000 \<le> t - Min (set ats) \<longrightarrow>
          checkRateLimit t ats = (Inr (), filter (\<lambda>ts. t - ts < 60000) ats @ [t]))
    \<and> (\<forall>now stamps.
          checkRateLimit now stamps
            = (if length (filter (\<lambda>ts. now - ts < 60000) stamps) < 30
               then (Inr (), filter (\<lambda>ts. now - ts < 60000) stamps @ [now])
               else (Inl (mk_error rate_limit_message), filter (\<lambda>ts. now - ts < 60000) stamps)))"
proof -
  have ne: "ats \<noteq> []" using len by auto
  have first: "run_attempts ats [] = (replicate 30 True, ats)"
    using run_attempts_all_admitted [of "[]" ats] len within by simp
  have second: "checkRateLimit t ats = (Inl (mk_error rate_limit_message), ats)
      \<and> log_time up t t_date project_id task_id spent_date hours notes
               \<lparr>timestamps = ats, requests = sent\<rparr>
             = (Inr \<lparr>content_text = ''Error logging time: Harvest API error: Rate limit exceeded: maximum 30 write operations per 60s. Please wait before retrying.'',
                     isError = True\<rparr>,
                \<lparr>timestamps = ats, requests = sent\<rparr>)"
    if inside: "t - Min (set ats) < 60000" for t
  proof -
    have "\<forall>a\<in>set ats. t - a < 60000"
    proof
      fix a assume "a \<in> set ats"
      then have "Min (set ats) \<le> a" by simp
      then show "t - a < 60000" using inside by simp
    qed
    then have keep: "filter (\<lambda>ts. t - ts < 60000) ats = ats" by (rule filter_all_recent)
    have rej: "checkRateLimit t ats = (Inl (mk_error rate_limit_message), ats)"
      using checkRateLimit_reject [of t ats] keep len by simp
    have "log_time up t t_date project_id task_id spent_date hours notes
               \<lparr>timestamps = ats, requests = sent\<rparr>
          = (error_envelope ''Error logging time: '' (mk_error rate_limit_message),
             \<lparr>timestamps = ats, requests = sent\<rparr>)"
      using log_time_rejected [of t "\<lparr>timestamps = ats, requests = sent\<rparr>" "mk_error rate_limit_message"] rej
      by simp
    then show ?thesis using rej by (simp add: error_envelope_def bind_res_def rate_limit_text)
  qed
  have third: "checkRateLimit t ats = (Inr (), filter (\<lambda>ts. t - ts < 60000) ats @ [t])"
    if "60000 \<le> t - Min (set ats)" for t
    using checkRateLimit_admit [of t ats] Min_old_filter [OF ne that] len by simp
  have fourth: "checkRateLimit now stamps
            = (if length (filter (\<lambda>ts. now - ts < 60000) stamps) < 30
               then (Inr (), filter (\<lambda>ts. now - ts < 60000) stamps @ [now])
               else (Inl (mk_error rate_limit_message), filter (\<lambda>ts. now - ts < 60000) stamps))"
    for now stamps
    using checkRateLimit_admit [of now stamps] checkRateLimit_reject [of now stamps]
    by (cases "length (filter (\<lambda>ts. now - ts < 60000) stamps) < 30") simp_all
  show ?thesis using first second third fourth by blast
qed

theorem write_throttle_window_witness:
  "run_attempts thirty_writes [] = (replicate 30 True, thirty_writes)
   \<and> checkRateLimit 59999 thirty_writes = (Inl (mk_error rate_limit_message), thirty_writes)
   \<and> requests (snd (log_time (\<lambda>sent req. Inr JNull) 59999 59999 1 2 None 1 None
                       \<lparr>timestamps = thirty_writes, requests = []\<rparr>)) = []
   \<and> checkRateLimit 60000 thirty_writes = (Inr (), tl thirty_writes @ [60000])"
proof -
  have len: "length thirty_writes = 30" by (simp add: thirty_writes_def)
  have within: "\<forall>a\<in>set thirty_writes. \<forall>b\<in>set thirty_writes. a - b < 60000"
    by (simp add: thirty_writes_def)
  have inside: "59999 - Min (set thirty_writes) < 60000" by (simp add: thirty_writes_def)
  have outside: "60000 \<le> 60000 - Min (set thirty_writes)" by (simp add: thirty_writes_def)
  have pruned: "filter (\<lambda>ts. 60000 - ts < 60000) thirty_writes = tl thirty_writes"
    by (simp add: thirty_writes_def)
  note inst = write_throttle_window [OF len within,
      of "\<lambda>sent req. Inr JNull" 59999 1 2 None 1 None "[]"]
  have all: "run_attempts thirty_writes [] = (replicate 30 True, thirty_writes)"
    using inst by (rule conjunct1)
  have rejected: "checkRateLimit 59999 thirty_writes
        = (Inl (mk_error rate_limit_message), thirty_writes)
      \<and> log_time (\<lambda>sent req. Inr JNull) 59999 59999 1 2 None 1 None
           \<lparr>timestamps = thirty_writes, requests = []\<rparr>
        = (Inr \<lparr>content_text = ''Error logging time: Harvest API error: Rate limit exceeded: maximum 30 write operations per 60s. Please wait before retrying.'',
                isError = True\<rparr>,
           \<lparr>timestamps = thirty_writes, requests = []\<rparr>)"
    using inst inside by blast
  have resumed: "checkRateLimit 60000 thirty_writes
        = (Inr (), filter (\<lambda>ts. 60000 - ts < 60000) thirty_writes @ [60000])"
    using inst outside by blast
  show ?thesis using all rejected resumed pruned by simp
qed

lemma catch_with_Inl: "catch_with label (bind_res (Inl e) f) = error_envelope label e"
  by (simp add: catch_with_def bind_res_def)

lemma log_time_admitted:
  assumes "length (filter (\<lambda>ts. t - ts < 60000) (timestamps w)) < 30"
  shows "snd (log_time up t t_date project_id task_id spent_date hours notes w)
           = w\<lparr>timestamps := filter (\<lambda>ts. t - ts < 60000) (timestamps w) @ [t],
                requests := requests w
                  @ [log_time_request t_date project_id task_id spent_date hours notes]\<rparr>"
    and "up (requests w) (log_time_request t_date project_id task_id spent_date hours notes) = Inl e
         \<Longrightarrow> fst (log_time up t t_date project_id task_id spent_date hours notes w)
               = error_envelope ''Error logging time: '' e"
  using checkRateLimit_admit [OF assms]
  by (simp_all add: log_time_def throttled_def call_upstream_def catch_with_Inl)

lemma start_timer_admitted:
  assumes "length (filter (\<lambda>ts. t - ts < 60000) (timestamps w)) < 30"
  shows "snd (start_timer up t t_date project_id task_id notes w)
           = w\<lparr>timestamps := filter (\<lambda>ts. t - ts < 60000) (timestamps w) @ [t],
                requests := requests w @ [start_timer_request t_date project_id task_id notes]\<rparr>"
    and "up (requests w) (start_timer_request t_date project_id task_id notes) = Inl e
         \<Longrightarrow> fst (start_timer up t t_date project_id task_id notes w)
               = error_envelope ''Error starting timer: '' e"
  using checkRateLimit_admit [OF assms]
  by (simp_all add: start_timer_def throttled_def call_upstream_def catch_with_Inl)

lemma stop_timer_admitted:
  assumes "length (filter (\<lambda>ts. t - ts < 60000) (timestamps w)) < 30"
  shows "snd (stop_timer up t time_entry_id w)
           = w\<lparr>timestamps := filter (\<lambda>ts. t - ts < 60000) (timestamps w) @ [t],
                requests := requests w @ [stop_timer_request time_entry_id]\<rparr>"
    and "up (requests w) (stop_timer_request time_entry_id) = Inl e
         \<Longrightarrow> fst (stop_timer up t time_entry_id w) = error_envelope ''Error stopping timer: '' e"
  using checkRateLimit_admit [OF assms]
  by (simp_all add: stop_timer_def throttled_def call_upstream_def catch_with_Inl)

lemma update_time_entry_admitted:
  assumes "length (filter (\<lambda>ts. t - ts < 60000) (timestamps w)) < 30"
  shows "snd (update_time_entry up t time_entry_id project_id task_id spent_date hours notes w)
           = w\<lparr>timestamps := filter (\<lambda>ts. t - ts < 60000) (timestamps w) @ [t],
                requests := requests w
                  @ [update_request time_entry_id project_id task_id spent_date hours notes]\<rparr>"
    and "up (requests w) (update_request time_entry_id project_id task_id spent_date hours notes) = Inl e
         \<Longrightarrow> fst (update_time_entry up t time_entry_id project_id task_id spent_date hours notes w)
               = error_envelope ''Error updating time entry: '' e"
  using checkRateLimit_admit [OF assms]
  by (simp_all add: update_time_entry_def throttled_def call_upstream_def catch_with_Inl)

text \<open>
  Claim C10. An admitted call of any of the four mutating tools issues its upstream request from
  a process state that already holds the attempt's timestamp, and the list of timestamps after
  the call is that state's list whatever the upstream answers: when the upstream call fails
  the tool reports the failure and the timestamp stays. A rejected call leaves the pruned list
  and sends nothing.
\<close>

theorem throttle_budget_not_rolled_back:
  "(length (filter (\<lambda>ts. t - ts < 60000) (timestamps w)) < 30 \<longrightarrow>
      (let w1 = w\<lparr>timestamps := filter (\<lambda>ts. t - ts < 60000) (timestamps w) @ [t]\<rparr>;
           lreq = log_time_request t_date project_id task_id spent_date hours notes;
           sreq = start_timer_request t_date project_id task_id notes;
           preq = stop_timer_request time_entry_id;
           ureq = update_request time_entry_id u_project u_task u_date u_hours u_notes
       in snd (log_time up t t_date project_id task_id spent_date hours notes w)
            = snd (call_upstream up lreq w1)
        \<and> snd (start_timer up t t_date project_id task_id notes w)
            = snd (call_upstream up sreq w1)
        \<and> snd (stop_timer up t time_entry_id w) = snd (call_upstream up preq w1)
        \<and> snd (update_time_entry up t time_entry_id u_project u_task u_date u_hours u_notes w)
            = snd (call_upstream up ureq w1)
        \<and> timestamps (snd (call_upstream up lreq w1)) = timestamps w1
        \<and> timestamps (snd (call_upstream up sreq w1)) = timestamps w1
        \<and> timestamps (snd (call_upstream up preq w1)) = timestamps w1
        \<and> timestamps (snd (call_upstream up ureq w1)) = timestamps w1
        \<and> (up (requests w) lreq = Inl e \<longrightarrow>
             fst (log_time up t t_date project_id task_id spent_date hours notes w)
               = error_envelope ''Error logging time: '' e)
        \<and> (up (requests w) sreq = Inl e \<longrightarrow>
             fst (start_timer up t t_date project_id task_id notes w)
               = error_envelope ''Error starting timer: '' e)
        \<and> (up (requests w) preq = Inl e \<longrightarrow>
             fst (stop_timer up t time_entry_id w) = error_envelope ''Error stopping timer: '' e)
        \<and> (up (requests w) ureq = Inl e \<longrightarrow>
             fst (update_time_entry up t time_entry_id u_project u_task u_date u_hours u_notes w)
               = error_envelope ''Error updating time entry: '' e)))
   \<and> (30 \<le> length (filter (\<lambda>ts. t - ts < 60000) (timestamps w)) \<longrightarrow>
      (let w1 = w\<lparr>timestamps := filter (\<lambda>ts. t - ts < 60000) (timestamps w)\<rparr>
       in snd (log_time up t t_date project_id task_id spent_date hours notes w) = w1
        \<and> snd (start_timer up t t_date project_id task_id notes w) = w1
        \<and> snd (stop_timer up t time_entry_id w) = w1
        \<and> snd (update_time_entry up t time_entry_id u_project u_task u_date u_hours u_notes w)
            = w1))"
proof (intro conjI impI)
  assume adm: "length (filter (\<lambda>ts. t - ts < 60000) (timestamps w)) < 30"
  show "let w1 = w\<lparr>timestamps := filter (\<lambda>ts. t - ts < 60000) (timestamps w) @ [t]\<rparr>;
           lreq = log_time_request t_date project_id task_id spent_date hours notes;
           sreq = start_timer_request t_date project_id task_id notes;
           preq = stop_timer_request time_entry_id;
           ureq = update_request time_entry_id u_project u_task u_date u_hours u_notes
       in snd (log_time up t t_date project_id task_id spent_date hours notes w)
            = snd (call_upstream up lreq w1)
        \<and> snd (start_timer up t t_date project_id task_id notes w)
            = snd (call_upstream up sreq w1)
        \<and> snd (stop_timer up t time_entry_id w) = snd (call_upstream up preq w1)
        \<and> snd (update_time_entry up t time_entry_id u_project u_task u_date u_hours u_notes w)
            = snd (call_upstream up ureq w1)
        \<and> timestamps (snd (call_upstream up lreq w1)) = timestamps w1
        \<and> timestamps (snd (call_upstream up sreq w1)) = timestamps w1
        \<and> timestamps (snd (call_upstream up preq w1)) = timestamps w1
        \<and> timestamps (snd (call_upstream up ureq w1)) = timestamps w1
        \<and> (up (requests w) lreq = Inl e \<longrightarrow>
             fst (log_time up t t_date project_id task_id spent_date hours notes w)
               = error_envelope ''Error logging time: '' e)
        \<and> (up (requests w) sreq = Inl e \<longrightarrow>
             fst (start_timer up t t_date project_id task_id notes w)
               = error_envelope ''Error starting timer: '' e)
        \<and> (up (requests w) preq = Inl e \<longrightarrow>
             fst (stop_timer up t time_entry_id w) = error_envelope ''Error stopping timer: '' e)
        \<and> (up (requests w) ureq = Inl e \<longrightarrow>
             fst (update_time_entry up t time_entry_id u_project u_task u_date u_hours u_notes w)
               = error_envelope ''Error updating time entry: '' e)"
    unfolding Let_def
    using log_time_admitted [OF adm] start_timer_admitted [OF adm] stop_timer_admitted [OF adm]
      update_time_entry_admitted [OF adm]
    by (simp add: call_upstream_def)
next
  assume full: "30 \<le> length (filter (\<lambda>ts. t - ts < 60000) (timestamps w))"
  have rej: "fst (checkRateLimit t (timestamps w)) = Inl (mk_error rate_limit_message)"
    and st: "snd (checkRateLimit t (timestamps w)) = filter (\<lambda>ts. t - ts < 60000) (timestamps w)"
    using checkRateLimit_reject [OF full] by simp_all
  show "let w1 = w\<lparr>timestamps := filter (\<lambda>ts. t - ts < 60000) (timestamps w)\<rparr>
       in snd (log_time up t t_date project_id task_id spent_date hours notes w) = w1
        \<and> snd (start_timer up t t_date project_id task_id notes w) = w1
        \<and> snd (stop_timer up t time_entry_id w) = w1
        \<and> snd (update_time_entry up t time_entry_id u_project u_task u_date u_hours u_notes w)
            = w1"
    unfolding Let_def
    using log_time_rejected [OF rej] start_timer_rejected [OF rej] stop_timer_rejected [OF rej]
      update_time_entry_rejected [OF rej] st
    by simp
qed

theorem throttle_budget_not_rolled_back_witness:
  "timestamps (snd (stop_timer (\<lambda>sent req. Inl (mk_error ''Network Error'')) 1000 42
                      \<lparr>timestamps = [], requests = []\<rparr>)) = [1000]
   \<and> fst (stop_timer (\<lambda>sent req. Inl (mk_error ''Network Error'')) 1000 42
             \<lparr>timestamps = [], requests = []\<rparr>)
       = Inr \<lparr>content_text = ''Error stopping timer: Harvest API error: Network Error'',
              isError = True\<rparr>
   \<and> snd (stop_timer (\<lambda>sent req. Inl (mk_error ''Network Error'')) 59999 42
             \<lparr>timestamps = thirty_writes, requests = []\<rparr>)
       = \<lparr>timestamps = thirty_writes, requests = []\<rparr>"
proof -
  have adm: "length (filter (\<lambda>ts. 1000 - ts < 60000)
                       (timestamps \<lparr>timestamps = [], requests = []\<rparr>)) < 30"
    by simp
  have fails: "(\<lambda>sent req. Inl (mk_error ''Network Error''))
                  (requests \<lparr>timestamps = [], requests = []\<rparr>) (stop_timer_request 42)
               = Inl (mk_error ''Network Error'')"
    by simp
  have full: "30 \<le> length (filter (\<lambda>ts. 59999 - ts < 60000)
                       (timestamps \<lparr>timestamps = thirty_writes, requests = []\<rparr>))"
    by (simp add: thirty_writes_def)
  have keep: "filter (\<lambda>ts. 59999 - ts < 60000) thirty_writes = thirty_writes"
    by (simp add: thirty_writes_def)
  have rendered: "error_envelope ''Error stopping timer: '' (mk_error ''Network Error'')
       = Inr \<lparr>content_text = ''Error stopping timer: Harvest API error: Network Error'',
              isError = True\<rparr>"
    by code_simp
  note admitted = throttle_budget_not_rolled_back
      [where t = 1000 and w = "\<lparr>timestamps = [], requests = []\<rparr>"
         and up = "\<lambda>sent req. Inl (mk_error ''Network Error'')"
         and time_entry_id = 42 and e = "mk_error ''Network Error''", THEN conjunct1, rule_format, OF adm]
  note rejected = throttle_budget_not_rolled_back
      [where t = 59999 and w = "\<lparr>timestamps = thirty_writes, requests = []\<rparr>"
         and up = "\<lambda>sent req. Inl (mk_error ''Network Error'')"
         and time_entry_id = 42, THEN conjunct2, rule_format, OF full]
  have one: "timestamps (snd (stop_timer (\<lambda>sent req. Inl (mk_error ''Network Error'')) 1000 42
                      \<lparr>timestamps = [], requests = []\<rparr>)) = [1000]"
    using admitted by (simp add: Let_def)
  have two: "fst (stop_timer (\<lambda>sent req. Inl (mk_error ''Network Error'')) 1000 42
             \<lparr>timestamps = [], requests = []\<rparr>)
       = error_envelope ''Error stopping timer: '' (mk_error ''Network Error'')"
    using admitted fails by (simp add: Let_def)
  have three: "snd (stop_timer (\<lambda>sent req. Inl (mk_error ''Network Error'')) 59999 42
             \<lparr>timestamps = thirty_writes, requests = []\<rparr>)
       = \<lparr>timestamps = thirty_writes, requests = []\<rparr>"
    using rejected keep by (simp add: Let_def)
  show ?thesis using one two three rendered by simp
qed

section \<open>Properties of the update payload\<close>

text \<open>
  Claim C5. The payload of \<^verbatim>\<open>update_time_entry\<close> has a field exactly for each optional argument
  the caller supplied, with the supplied value, and no field twice; with only \<open>hours\<close> supplied
  it is the single field \<open>hours\<close>, with nothing supplied it is empty. An admitted call sends the
  PATCH request with that payload, the empty one included.
\<close>

theorem update_payload_only_supplied_fields:
  "map_of (updateData project_id task_id spent_date hours notes)
     = (\<lambda>k. if k = ''project_id'' then map_option (\<lambda>p. JNum (of_int p)) project_id
            else if k = ''task_id'' then map_option (\<lambda>t. JNum (of_int t)) task_id
            else if k = ''spent_date'' then map_option JStr spent_date
            else if k = ''hours'' then map_option JNum hours
            else if k = ''notes'' then map_option JStr notes
            else None)
   \<and> distinct (map fst (updateData project_id task_id spent_date hours notes))
   \<and> updateData None None None (Some h) None = [(''hours'', JNum h)]
   \<and> updateData None None None None None = []
   \<and> (length (filter (\<lambda>ts. t - ts < 60000) (timestamps w)) < 30 \<longrightarrow>
        requests (snd (update_time_entry up t time_entry_id project_id task_id spent_date hours
                         notes w))
          = requests w
            @ [Patch (''/time_entries/'' @ number_toString (of_int time_entry_id))
                 (Some (JObj (updateData project_id task_id spent_date hours notes)))])"
proof (intro conjI impI)
  show "map_of (updateData project_id task_id spent_date hours notes)
     = (\<lambda>k. if k = ''project_id'' then map_option (\<lambda>p. JNum (of_int p)) project_id
            else if k = ''task_id'' then map_option (\<lambda>t. JNum (of_int t)) task_id
            else if k = ''spent_date'' then map_option JStr spent_date
            else if k = ''hours'' then map_option JNum hours
            else if k = ''notes'' then map_option JStr notes
            else None)"
    by (cases project_id; cases task_id; cases spent_date; cases hours; cases "notes")
       (simp_all add: updateData_def fun_eq_iff)
  show "distinct (map fst (updateData project_id task_id spent_date hours notes))"
    by (cases project_id; cases task_id; cases spent_date; cases hours; cases "notes")
       (simp_all add: updateData_def)
  show "updateData None None None (Some h) None = [(''hours'', JNum h)]"
    by (simp add: updateData_def)
  show "updateData None None None None None = []"
    by (simp add: updateData_def)
next
  assume adm: "length (filter (\<lambda>ts. t - ts < 60000) (timestamps w)) < 30"
  show "requests (snd (update_time_entry up t time_entry_id project_id task_id spent_date hours
                         notes w))
          = requests w
            @ [Patch (''/time_entries/'' @ number_toString (of_int time_entry_id))
                 (Some (JObj (updateData project_id task_id spent_date hours notes)))]"
    using update_time_entry_admitted(1) [OF adm] by (simp add: update_request_def)
qed

theorem update_payload_only_supplied_fields_witness:
  "requests (snd (update_time_entry (\<lambda>sent req. Inr JNull) 1000 42 None None None None None
                    \<lparr>timestamps = [], requests = []\<rparr>))
     = [Patch ''/time_entries/42'' (Some (JObj []))]
   \<and> requests (snd (update_time_entry (\<lambda>sent req. Inr JNull) 1000 42 None None None
                      (Some (5 / 2)) None \<lparr>timestamps = [], requests = []\<rparr>))
     = [Patch ''/time_entries/42'' (Some (JObj [(''hours'', JNum (5 / 2))]))]"
proof -
  have adm: "length (filter (\<lambda>ts. 1000 - ts < 60000)
                       (timestamps \<lparr>timestamps = [], requests = []\<rparr>)) < 30"
    by simp
  have url: "''/time_entries/'' @ number_toString (of_int 42) = ''/time_entries/42''"
    by code_simp
  note sent = update_payload_only_supplied_fields
      [where t = 1000 and w = "\<lparr>timestamps = [], requests = []\<rparr>" and time_entry_id = 42
         and up = "\<lambda>sent req. Inr JNull"]
  have empty: "requests (snd (update_time_entry (\<lambda>sent req. Inr JNull) 1000 42 None None None
                    None None \<lparr>timestamps = [], requests = []\<rparr>))
     = [Patch ''/time_entries/42'' (Some (JObj []))]"
    using sent [of None None None None None] adm url by (simp add: updateData_def)
  have one: "requests (snd (update_time_entry (\<lambda>sent req. Inr JNull) 1000 42 None None None
                      (Some (5 / 2)) None \<lparr>timestamps = [], requests = []\<rparr>))
     = [Patch ''/time_entries/42'' (Some (JObj [(''hours'', JNum (5 / 2))]))]"
    using sent [of None None None "Some (5 / 2)" None] adm url by (simp add: updateData_def)
  show ?thesis using empty one by simp
qed

section \<open>Properties of the pagination aggregator\<close>

lemma get_prop_not_nullish: "get_prop v k = JArr xs \<Longrightarrow> \<not> nullish v"
  by (cases v) simp_all

lemma member_present: "\<not> nullish v \<Longrightarrow> member v k = Inr (get_prop v k)"
  by (simp add: member_def)

lemma fetch_pages_from:
  assumes srv: "serves_pages up pages"
  shows "i < length pages \<Longrightarrow>
         fetch_pages up (fst (pages ! i)) acc w
           = Some (Inr (acc @ concat (map snd (drop i pages))),
                   w\<lparr>requests := requests w
                        @ map (\<lambda>p. assignments_request (fst p)) (drop i pages)\<rparr>)"
proof (induction "length pages - i" arbitrary: i acc w)
  case 0
  then show ?case by simp
next
  case (Suc n)
  from srv Suc.prems obtain data where
    answer: "up (requests w) (assignments_request (fst (pages ! i))) = Inr data"
    and items: "get_prop data ''project_assignments'' = JArr (snd (pages ! i))"
    and nxt: "if Suc i < length pages
               then get_prop data ''next_page'' = fst (pages ! Suc i)
                    \<and> truthy (fst (pages ! Suc i))
               else \<not> truthy (get_prop data ''next_page'')"
    unfolding serves_pages_def by blast
  have mem: "member data ''project_assignments'' = Inr (JArr (snd (pages ! i)))"
    using member_present [OF get_prop_not_nullish [OF items]] items by simp
  let ?w' = "w\<lparr>requests := requests w @ [assignments_request (fst (pages ! i))]\<rparr>"
  have dr: "drop i pages = pages ! i # drop (Suc i) pages"
    using Suc.prems by (simp add: Cons_nth_drop_Suc)
  show ?case
  proof (cases "Suc i < length pages")
    case True
    then have np: "get_prop data ''next_page'' = fst (pages ! Suc i)"
      and tr: "truthy (fst (pages ! Suc i))"
      using nxt by simp_all
    have "n = length pages - Suc i" using Suc.hyps(2) by simp
    then have ih: "fetch_pages up (fst (pages ! Suc i)) (acc @ snd (pages ! i)) ?w'
           = Some (Inr ((acc @ snd (pages ! i)) @ concat (map snd (drop (Suc i) pages))),
                   ?w'\<lparr>requests := requests ?w'
                         @ map (\<lambda>p. assignments_request (fst p)) (drop (Suc i) pages)\<rparr>)"
      using Suc.hyps(1) [of "Suc i"] True by simp
    have unfold: "fetch_pages up (fst (pages ! i)) acc w
           = fetch_pages up (fst (pages ! Suc i)) (acc @ snd (pages ! i)) ?w'"
      by (subst fetch_pages.simps)
         (simp add: call_upstream_def answer mem js_or_def np tr)
    show ?thesis unfolding unfold ih dr by simp
  next
    case False
    then have last: "drop (Suc i) pages = []" using Suc.prems by simp
    have stop: "\<not> truthy (get_prop data ''next_page'')" using nxt False by simp
    have unfold: "fetch_pages up (fst (pages ! i)) acc w
           = Some (Inr (acc @ snd (pages ! i)), ?w')"
      by (subst fetch_pages.simps)
         (simp add: call_upstream_def answer mem js_or_def stop)
    show ?thesis unfolding unfold dr last by simp
  qed
qed

lemma three_pages_served: "serves_pages three_page_upstream three_pages"
  unfolding serves_pages_def
proof (intro conjI allI impI)
  show "three_pages \<noteq> []" by (simp add: three_pages_def)
  show "fst (hd three_pages) = JNum 1" by (simp add: three_pages_def)
next
  fix sent i
  assume "i < length three_pages"
  then have "i = 0 \<or> i = 1 \<or> i = 2" by (auto simp: three_pages_def)
  then show "\<exists>data. three_page_upstream sent (assignments_request (fst (three_pages ! i))) = Inr data
           \<and> get_prop data ''project_assignments'' = JArr (snd (three_pages ! i))
           \<and> (if Suc i < length three_pages
               then get_prop data ''next_page'' = fst (three_pages ! Suc i)
                    \<and> truthy (fst (three_pages ! Suc i))
               else \<not> truthy (get_prop data ''next_page''))"
    by (auto simp: three_page_upstream_def assignments_request_def three_pages_def)
qed

text \<open>
  Claim C2. When the upstream serves the assignments in \<open>k\<close> pages, the aggregator returns; it
  requests page 1 first and then each page the previous answer indicated, once each and in this
  order; its result is the concatenation of the pages' \<^verbatim>\<open>project_assignments\<close> arrays in the
  order served, so its length is the total count over the pages. This holds for every \<open>k\<close>.
\<close>

theorem aggregator_concatenates_pages:
  assumes "serves_pages up pages"
  shows "getMyProjectAssignments up w
           = Some (Inr (concat (map snd pages)),
                   w\<lparr>requests := requests w @ map (\<lambda>p. assignments_request (fst p)) pages\<rparr>)
         \<and> length (concat (map snd pages)) = sum_list (map (\<lambda>p. length (snd p)) pages)
         \<and> hd (map (\<lambda>p. assignments_request (fst p)) pages) = assignments_request (JNum 1)"
proof -
  have ne: "pages \<noteq> []" and first: "fst (hd pages) = JNum 1"
    using assms by (simp_all add: serves_pages_def)
  have h: "pages ! 0 = hd pages" using ne by (simp add: hd_conv_nth)
  have "0 < length pages" using ne by simp
  then have "fetch_pages up (fst (pages ! 0)) [] w
           = Some (Inr ([] @ concat (map snd (drop 0 pages))),
                   w\<lparr>requests := requests w
                        @ map (\<lambda>p. assignments_request (fst p)) (drop 0 pages)\<rparr>)"
    by (rule fetch_pages_from [OF assms])
  then have "getMyProjectAssignments up w
           = Some (Inr (concat (map snd pages)),
                   w\<lparr>requests := requests w @ map (\<lambda>p. assignments_request (fst p)) pages\<rparr>)"
    using h first by (simp add: getMyProjectAssignments_def)
  moreover have "length (concat (map snd pages)) = sum_list (map (\<lambda>p. length (snd p)) pages)"
    by (simp add: length_concat comp_def)
  moreover have "hd (map (\<lambda>p. assignments_request (fst p)) pages) = assignments_request (JNum 1)"
    using ne first by (simp add: hd_map)
  ultimately show ?thesis by simp
qed

theorem aggregator_concatenates_pages_witness:
  "getMyProjectAssignments three_page_upstream \<lparr>timestamps = [], requests = []\<rparr>
     = Some (Inr (map example_assignment [101, 102, 103, 104, 105]),
             \<lparr>timestamps = [],
                requests = [assignments_request (JNum 1), assignments_request (JNum 2),
                            assignments_request (JNum 3)]\<rparr>)"
  using aggregator_concatenates_pages [OF three_pages_served, of "\<lparr>timestamps = [], requests = []\<rparr>"]
  by (simp add: three_pages_def)

section \<open>Properties of list\_project\_tasks\<close>

lemma find_assignment_none:
  "\<forall>pa\<in>set pas. \<not> nullish pa \<Longrightarrow>
   \<forall>pa\<in>set pas. opt_chain (get_prop pa ''project'') ''id'' \<noteq> JNum (of_int project_id) \<Longrightarrow>
   find_assignment project_id pas = Inr JUndefined"
  by (induction pas) (simp_all add: member_present bind_res_def)

text \<open>
  Claim C7. When the aggregator has returned the assignments (values other than \<^verbatim>\<open>null\<close> and
  \<^verbatim>\<open>undefined\<close>) and none of them embeds a project with the requested id,
  \<^verbatim>\<open>list_project_tasks\<close> returns an envelope flagged as an error whose text is the message
  \<^verbatim>\<open>No project assignment found for project_id <id>\<close> with its hint about not being assigned to
  the project; the process state is the one the aggregator left, so no further request is sent,
  and nothing is thrown.
\<close>

theorem list_project_tasks_no_assignment:
  assumes fetched: "getMyProjectAssignments up w = Some (Inr pas, w')"
    and objects: "\<forall>pa\<in>set pas. \<not> nullish pa"
    and nomatch: "\<forall>pa\<in>set pas. opt_chain (get_prop pa ''project'') ''id'' \<noteq> JNum (of_int project_id)"
  shows "list_project_tasks up stringify project_id w
           = Some (Inr \<lparr>content_text = ''No project assignment found for project_id ''
                           @ number_toString (of_int project_id)
                           @ ''. If this project exists but isn't listed, you may not be assigned to it in Harvest.'',
                         isError = True\<rparr>, w')"
  using fetched find_assignment_none [OF objects nomatch]
  by (simp add: list_project_tasks_def bind_res_def catch_with_def no_assignment_text_def)

theorem list_project_tasks_no_assignment_witness:
  "list_project_tasks three_page_upstream (\<lambda>v. []) 999 \<lparr>timestamps = [], requests = []\<rparr>
     = Some (Inr \<lparr>content_text = ''No project assignment found for project_id 999. If this project exists but isn't listed, you may not be assigned to it in Harvest.'',
                   isError = True\<rparr>,
             \<lparr>timestamps = [],
                requests = [assignments_request (JNum 1), assignments_request (JNum 2),
                            assignments_request (JNum 3)]\<rparr>)"
proof -
  have fetched: "getMyProjectAssignments three_page_upstream \<lparr>timestamps = [], requests = []\<rparr>
     = Some (Inr (map example_assignment [101, 102, 103, 104, 105]),
             \<lparr>timestamps = [],
                requests = [assignments_request (JNum 1), assignments_request (JNum 2),
                            assignments_request (JNum 3)]\<rparr>)"
    by code_simp
  have objects: "\<forall>pa\<in>set (map example_assignment [101, 102, 103, 104, 105]). \<not> nullish pa"
    by (simp add: example_assignment_def)
  have nomatch: "\<forall>pa\<in>set (map example_assignment [101, 102, 103, 104, 105]).
      opt_chain (get_prop pa ''project'') ''id'' \<noteq> JNum (of_int 999)"
    by (simp add: example_assignment_def opt_chain_def)
  have digits: "number_toString (of_int 999) = ''999''" by code_simp
  show ?thesis
    using list_project_tasks_no_assignment [OF fetched objects nomatch, of "\<lambda>v. []"] digits
    by simp
qed

section \<open>Properties of the error sanitizer\<close>

lemma opt_chain_get_prop: "opt_chain v k = get_prop v k"
  by (cases v) (simp_all add: opt_chain_def)

lemma truthy_not_nullish: "truthy v \<Longrightarrow> \<not> nullish v"
  by (cases v) simp_all

lemma falsy_converts: "\<not> truthy v \<Longrightarrow> converts v"
  by (cases v) simp_all

lemma error_status_field: "error_status e = get_prop (get_prop e ''response'') ''status''"
  by (simp add: error_status_def opt_chain_get_prop)

lemma error_message_chain:
  "error_message e
     = (if truthy (body_field e ''message'') then body_field e ''message''
        else if truthy (body_field e ''error'') then body_field e ''error''
        else if truthy (get_prop e ''message'') then get_prop e ''message''
        else JStr ''Unknown error'')"
  by (simp add: error_message_def body_field_def opt_chain_get_prop js_or_def Let_def)

lemma format_error_forbidden:
  assumes "converts (error_message e)" and "error_status e = JNum 403"
  shows "format_error hint e
           = Inr (''Harvest API error (403): '' @ toString_raw (error_message e) @ hint)"
  using assms by (simp add: format_error_def Let_def toString_js_def bind_res_def)

lemma format_error_status:
  assumes "converts (error_message e)" and "error_status e \<noteq> JNum 403"
    and "truthy (error_status e)" and "converts (error_status e)"
  shows "format_error hint e
           = Inr (''Harvest API error ('' @ toString_raw (error_status e) @ ''): ''
                  @ toString_raw (error_message e))"
  using assms by (simp add: format_error_def Let_def toString_js_def bind_res_def)

lemma format_error_no_status:
  assumes "converts (error_message e)" and "\<not> truthy (error_status e)"
  shows "format_error hint e = Inr (''Harvest API error: '' @ toString_raw (error_message e))"
proof -
  have "error_status e \<noteq> JNum 403" using assms(2) by auto
  then show ?thesis
    using assms by (simp add: format_error_def Let_def toString_js_def bind_res_def)
qed

lemma format_error_throws:
  "format_error hint e = Inl x \<Longrightarrow>
   x = cannot_convert \<and> (\<not> converts (error_message e) \<or> \<not> converts (error_status e))"
  by (auto simp: format_error_def Let_def toString_js_def bind_res_def split: if_splits)

text \<open>
  Claim C4, as stated, fails in two places. The formatter is not total: when the upstream body
  is the JSON text \<^verbatim>\<open>{"message": {"toString": 1}}\<close> the template literal cannot convert the
  message and the formatter throws a \<^verbatim>\<open>TypeError\<close>, in both variants of the server. And the
  parenthesised status is left out not only when there is no status: a status that is present
  but falsy, such as 0, is left out too.
\<close>

theorem formatHarvestError_claim_counterexample:
  "formatHarvestError unprintable_error
     = Inl (type_error ''Cannot convert object to primitive value'')
   \<and> formatHarvestError_v1 unprintable_error
     = Inl (type_error ''Cannot convert object to primitive value'')
   \<and> get_prop (get_prop (JObj [(''message'', JStr ''Aborted''),
                                (''response'', JObj [(''status'', JNum 0)])]) ''response'')
        ''status'' = JNum 0
   \<and> formatHarvestError (JObj [(''message'', JStr ''Aborted''),
                                (''response'', JObj [(''status'', JNum 0)])])
     = Inr ''Harvest API error: Aborted''"
  by code_simp

text \<open>
  Claim C4, amended. Both variants of \<^verbatim>\<open>formatHarvestError\<close> return a text whenever the
  message they select converts to a string and so does the status they print. The status is
  the response's \<^verbatim>\<open>status\<close>; the message is the upstream body's \<^verbatim>\<open>message\<close>, else its
  \<^verbatim>\<open>error\<close>, else the failure's own \<^verbatim>\<open>message\<close>, else \<^verbatim>\<open>Unknown error\<close>, each alternative
  taken when the one before is falsy. When the status is exactly the number 403 the text is
  \<^verbatim>\<open>Harvest API error (403): <message>\<close> followed by the fixed hint about the \<^verbatim>\<open>/users/me/*\<close>
  endpoints and the account identifier (written with an ASCII apostrophe in the server with
  the throttle, with U+2019 in \<^verbatim>\<open>src/index.ts\<close>). For any other truthy status it is
  \<^verbatim>\<open>Harvest API error (<status>): <message>\<close> with the status converted to a string, and for
  a status that is absent or otherwise falsy it is \<^verbatim>\<open>Harvest API error: <message>\<close>.
\<close>

theorem formatHarvestError_texts:
  "error_status e = get_prop (get_prop e ''response'') ''status''
   \<and> error_message e
       = (if truthy (body_field e ''message'') then body_field e ''message''
          else if truthy (body_field e ''error'') then body_field e ''error''
          else if truthy (get_prop e ''message'') then get_prop e ''message''
          else JStr ''Unknown error'')
   \<and> (converts (error_message e) \<and> error_status e = JNum 403 \<longrightarrow>
        formatHarvestError e
          = Inr (''Harvest API error (403): '' @ toString_raw (error_message e)
                 @ ''. This usually means your token lacks permission for that endpoint. Try using endpoints under /users/me/* (like /users/me/project_assignments), and verify HARVEST_ACCOUNT_ID matches the token's account.'')
        \<and> formatHarvestError_v1 e
          = Inr (''Harvest API error (403): '' @ toString_raw (error_message e)
                 @ ''. This usually means your token lacks permission for that endpoint. Try using endpoints under /users/me/* (like /users/me/project_assignments), and verify HARVEST_ACCOUNT_ID matches the token''
                 @ [CHR 0xE2, CHR 0x80, CHR 0x99] @ ''s account.''))
   \<and> (converts (error_message e) \<and> error_status e \<noteq> JNum 403
        \<and> truthy (error_status e) \<and> converts (error_status e) \<longrightarrow>
        formatHarvestError e
          = Inr (''Harvest API error ('' @ toString_raw (error_status e) @ ''): ''
                 @ toString_raw (error_message e))
        \<and> formatHarvestError_v1 e = formatHarvestError e)
   \<and> (converts (error_message e) \<and> \<not> truthy (error_status e) \<longrightarrow>
        formatHarvestError e = Inr (''Harvest API error: '' @ toString_raw (error_message e))
        \<and> formatHarvestError_v1 e = formatHarvestError e)"
proof (intro conjI impI)
  show "error_status e = get_prop (get_prop e ''response'') ''status''"
    by (rule error_status_field)
next
  show "error_message e
       = (if truthy (body_field e ''message'') then body_field e ''message''
          else if truthy (body_field e ''error'') then body_field e ''error''
          else if truthy (get_prop e ''message'') then get_prop e ''message''
          else JStr ''Unknown error'')"
    by (rule error_message_chain)
next
  assume h: "converts (error_message e) \<and> error_status e = JNum 403"
  show "formatHarvestError e
          = Inr (''Harvest API error (403): '' @ toString_raw (error_message e)
                 @ ''. This usually means your token lacks permission for that endpoint. Try using endpoints under /users/me/* (like /users/me/project_assignments), and verify HARVEST_ACCOUNT_ID matches the token's account.'')"
    using h format_error_forbidden [of e permission_hint]
    by (simp add: formatHarvestError_def permission_hint_def permission_hint_with_def)
next
  assume h: "converts (error_message e) \<and> error_status e = JNum 403"
  show "formatHarvestError_v1 e
          = Inr (''Harvest API error (403): '' @ toString_raw (error_message e)
                 @ ''. This usually means your token lacks permission for that endpoint. Try using endpoints under /users/me/* (like /users/me/project_assignments), and verify HARVEST_ACCOUNT_ID matches the token''
                 @ [CHR 0xE2, CHR 0x80, CHR 0x99] @ ''s account.'')"
    using h format_error_forbidden [of e permission_hint_v1]
    by (simp add: formatHarvestError_v1_def permission_hint_v1_def permission_hint_with_def)
next
  assume h: "converts (error_message e) \<and> error_status e \<noteq> JNum 403
        \<and> truthy (error_status e) \<and> converts (error_status e)"
  then show "formatHarvestError e
          = Inr (''Harvest API error ('' @ toString_raw (error_status e) @ ''): ''
                 @ toString_raw (error_message e))"
    using format_error_status [of e permission_hint] by (simp add: formatHarvestError_def)
next
  assume h: "converts (error_message e) \<and> error_status e \<noteq> JNum 403
        \<and> truthy (error_status e) \<and> converts (error_status e)"
  then show "formatHarvestError_v1 e = formatHarvestError e"
    using format_error_status [of e permission_hint] format_error_status [of e permission_hint_v1]
    by (simp add: formatHarvestError_def formatHarvestError_v1_def)
next
  assume h: "converts (error_message e) \<and> \<not> truthy (error_status e)"
  then show "formatHarvestError e = Inr (''Harvest API error: '' @ toString_raw (error_message e))"
    using format_error_no_status [of e permission_hint] by (simp add: formatHarvestError_def)
next
  assume h: "converts (error_message e) \<and> \<not> truthy (error_status e)"
  then show "formatHarvestError_v1 e = formatHarvestError e"
    using format_error_no_status [of e permission_hint]
      format_error_no_status [of e permission_hint_v1]
    by (simp add: formatHarvestError_def formatHarvestError_v1_def)
qed

theorem formatHarvestError_texts_witness:
  "formatHarvestError forbidden_error
     = Inr ''Harvest API error (403): Forbidden. This usually means your token lacks permission for that endpoint. Try using endpoints under /users/me/* (like /users/me/project_assignments), and verify HARVEST_ACCOUNT_ID matches the token's account.''
   \<and> formatHarvestError server_error = Inr ''Harvest API error (500): boom''
   \<and> formatHarvestError_v1 server_error = Inr ''Harvest API error (500): boom''
   \<and> formatHarvestError network_error = Inr ''Harvest API error: Network Error''
   \<and> formatHarvestError JUndefined = Inr ''Harvest API error: Unknown error''"
proof -
  have m1: "error_message forbidden_error = JStr ''Forbidden''"
    and s1: "error_status forbidden_error = JNum 403"
    and m2: "error_message server_error = JStr ''boom''"
    and s2: "error_status server_error = JNum 500"
    and m3: "error_message network_error = JStr ''Network Error''"
    and s3: "error_status network_error = JUndefined"
    and m4: "error_message JUndefined = JStr ''Unknown error''"
    and s4: "error_status JUndefined = JUndefined"
    by code_simp+
  have d500: "number_toString 500 = ''500''" by code_simp
  have h1: "converts (error_message forbidden_error) \<and> error_status forbidden_error = JNum 403"
    by (simp add: m1 s1)
  have h2: "converts (error_message server_error) \<and> error_status server_error \<noteq> JNum 403
        \<and> truthy (error_status server_error) \<and> converts (error_status server_error)"
    by (simp add: m2 s2)
  have h3: "converts (error_message network_error) \<and> \<not> truthy (error_status network_error)"
    by (simp add: m3 s3)
  have h4: "converts (error_message JUndefined) \<and> \<not> truthy (error_status JUndefined)"
    by (simp add: m4 s4)
  note inst = formatHarvestError_texts
  have one: "formatHarvestError forbidden_error
     = Inr ''Harvest API error (403): Forbidden. This usually means your token lacks permission for that endpoint. Try using endpoints under /users/me/* (like /users/me/project_assignments), and verify HARVEST_ACCOUNT_ID matches the token's account.''"
    using inst [of forbidden_error, THEN conjunct2, THEN conjunct2, THEN conjunct1, rule_format,
        OF h1, THEN conjunct1]
    by (simp add: m1)
  have two: "formatHarvestError server_error = Inr ''Harvest API error (500): boom''"
    using inst [of server_error, THEN conjunct2, THEN conjunct2, THEN conjunct2, THEN conjunct1,
        rule_format, OF h2, THEN conjunct1]
    by (simp add: m2 s2 d500)
  have three: "formatHarvestError_v1 server_error = Inr ''Harvest API error (500): boom''"
    using inst [of server_error, THEN conjunct2, THEN conjunct2, THEN conjunct2, THEN conjunct1,
        rule_format, OF h2, THEN conjunct2] two
    by simp
  have four: "formatHarvestError network_error = Inr ''Harvest API error: Network Error''"
    using inst [of network_error, THEN conjunct2, THEN conjunct2, THEN conjunct2, THEN conjunct2,
        rule_format, OF h3, THEN conjunct1]
    by (simp add: m3)
  have five: "formatHarvestError JUndefined = Inr ''Harvest API error: Unknown error''"
    using inst [of JUndefined, THEN conjunct2, THEN conjunct2, THEN conjunct2, THEN conjunct2,
        rule_format, OF h4, THEN conjunct1]
    by (simp add: m4)
  show ?thesis using one two three four five by (intro conjI)
qed

text \<open>The status is printed as the language prints a number.\<close>

lemma formatHarvestError_exponent_status:
  "formatHarvestError (JObj [(''message'', JStr ''odd''),
                             (''response'', JObj [(''status'', JNum (10 ^ 21))])])
     = Inr ''Harvest API error (1e+21): odd''"
  by code_simp

subsection \<open>The log-safe formatter\<close>

lemma sublist_split_at:
  assumes "sublist t (a @ c # b)" and "c \<notin> set t"
  shows "sublist t a \<or> sublist t b"
proof -
  from assms(1) consider "sublist t a" | "sublist t (c # b)"
    | t1 t2 where "t = t1 @ t2" "suffix t1 a" "prefix t2 (c # b)"
    unfolding sublist_append by blast
  then show ?thesis
  proof cases
    case 1
    then show ?thesis by simp
  next
    case 2
    then have "prefix t (c # b) \<or> sublist t b" by (simp add: sublist_Cons_right)
    moreover have "prefix t (c # b) \<Longrightarrow> t = []"
      using assms(2) by (cases t) auto
    ultimately show ?thesis by auto
  next
    case 3
    have "t2 = []" using 3(1,3) assms(2) by (cases t2) auto
    then have "suffix t a" using 3(1,2) by simp
    then show ?thesis by (auto simp: suffix_def)
  qed
qed

lemma sublist_singleton: "sublist t [c] \<Longrightarrow> t = [] \<or> t = [c]"
  by (cases t) (auto simp: sublist_Cons_right)

lemma sublist_separator:
  assumes "sublist t (a @ '' | '' @ b)" and "t \<noteq> []"
    and "CHR '' '' \<notin> set t" and "t \<noteq> ''|''"
  shows "sublist t a \<or> sublist t b"
proof -
  have "sublist t (a @ CHR '' '' # (''|'' @ CHR '' '' # b))" using assms(1) by simp
  then have "sublist t a \<or> sublist t (''|'' @ CHR '' '' # b)"
    using assms(3) by (rule sublist_split_at)
  moreover have "sublist t ''|'' \<or> sublist t b" if "sublist t (''|'' @ CHR '' '' # b)"
    using that assms(3) by (rule sublist_split_at)
  moreover have "\<not> sublist t ''|''"
    using sublist_singleton [of t "CHR ''|''"] assms(2,4) by auto
  ultimately show ?thesis by blast
qed

lemma sublist_join:
  assumes "t \<noteq> []" and "CHR '' '' \<notin> set t" and "t \<noteq> ''|''"
  shows "sublist t (join_strings '' | '' ps) \<Longrightarrow> \<exists>p\<in>set ps. sublist t p"
proof (induction ps)
  case Nil
  then show ?case using assms(1) by simp
next
  case (Cons x xs)
  show ?case
  proof (cases xs)
    case Nil
    then show ?thesis using Cons.prems by simp
  next
    case (Cons y ys)
    then have "sublist t (x @ '' | '' @ join_strings '' | '' xs)"
      using Cons.prems by simp
    then have "sublist t x \<or> sublist t (join_strings '' | '' xs)"
      using assms by (rule sublist_separator)
    then show ?thesis using Cons.IH by auto
  qed
qed

lemma labelled_token_free:
  assumes "sublist t p" and "p \<in> set (labelled (label @ [c]) v)"
    and "c \<notin> set t" and "\<not> sublist t label"
  shows "truthy v \<and> sublist t (toString_raw v)"
proof -
  have tr: "truthy v" and p: "p = label @ c # toString_raw v"
    using assms(2) by (auto simp: labelled_def split: if_splits)
  have "sublist t label \<or> sublist t (toString_raw v)"
    using assms(1,3) unfolding p by (rule sublist_split_at)
  then show ?thesis using tr assms(4) by simp
qed

lemma unlabelled_token_free:
  assumes "sublist t p" and "p \<in> set (labelled [] v)"
  shows "truthy v \<and> sublist t (toString_raw v)"
  using assms by (auto simp: labelled_def split: if_splits)

lemma allow_list_text_token_free:
  assumes ne: "t \<noteq> []" and space: "CHR '' '' \<notin> set t" and eq: "CHR ''='' \<notin> set t"
    and bar: "t \<noteq> ''|''" and http: "\<not> sublist t ''HTTP''" and code: "\<not> sublist t ''code''"
    and clean: "\<forall>f\<in>set [m, s, bm, c]. truthy f \<longrightarrow> \<not> sublist t (toString_raw f)"
  shows "\<not> sublist t (allow_list_text [m, s, bm, c])"
proof
  assume "sublist t (allow_list_text [m, s, bm, c])"
  then have "sublist t (join_strings '' | ''
       (labelled [] m @ labelled (''HTTP'' @ [CHR '' '']) s @ labelled [] bm
        @ labelled (''code'' @ [CHR ''='']) c))"
    by simp
  then obtain p where sub: "sublist t p"
    and p: "p \<in> set (labelled [] m) \<or> p \<in> set (labelled (''HTTP'' @ [CHR '' '']) s)
            \<or> p \<in> set (labelled [] bm) \<or> p \<in> set (labelled (''code'' @ [CHR ''='']) c)"
    using sublist_join [OF ne space bar] by fastforce
  from p consider "truthy m \<and> sublist t (toString_raw m)" | "truthy s \<and> sublist t (toString_raw s)"
    | "truthy bm \<and> sublist t (toString_raw bm)" | "truthy c \<and> sublist t (toString_raw c)"
    using unlabelled_token_free [OF sub] labelled_token_free [OF sub _ space http]
      labelled_token_free [OF sub _ eq code]
    by blast
  then show False using clean by cases simp_all
qed

lemma log_parts_joined:
  assumes tr: "truthy e"
    and conv: "\<forall>f\<in>set (allow_listed_fields e). truthy f \<longrightarrow> converts f"
  shows "bind_res (log_parts e) (array_join '' | '')
           = Inr (allow_list_text (allow_listed_fields e))"
proof -
  have m: "truthy (get_prop e ''message'') \<Longrightarrow> converts (get_prop e ''message'')"
    and s: "truthy (get_prop (get_prop e ''response'') ''status'')
            \<Longrightarrow> converts (get_prop (get_prop e ''response'') ''status'')"
    and bm: "truthy (get_prop (get_prop (get_prop e ''response'') ''data'') ''message'')
            \<Longrightarrow> converts (get_prop (get_prop (get_prop e ''response'') ''data'') ''message'')"
    and c: "truthy (get_prop e ''code'') \<Longrightarrow> converts (get_prop e ''code'')"
    using conv by (simp_all add: allow_listed_fields_def)
  show ?thesis
    using m s bm c
    by (simp add: log_parts_def allow_listed_fields_def opt_chain_get_prop toString_js_def
        bind_res_def array_join_def labelled_def truthy_not_nullish)
qed

lemma sanitize_from_fields:
  assumes "truthy e" and "\<forall>f\<in>set (allow_listed_fields e). truthy f \<longrightarrow> converts f"
  shows "sanitizeErrorForLogging e
           = (if allow_list_text (allow_listed_fields e) \<noteq> []
              then Inr (allow_list_text (allow_listed_fields e)) else toString_js e)"
proof -
  have "bind_res (log_parts e) (array_join '' | '')
          = Inr (allow_list_text (allow_listed_fields e))"
    using assms by (rule log_parts_joined)
  then show ?thesis
    using assms(1)
    by (cases "log_parts e") (auto simp: sanitizeErrorForLogging_def bind_res_def)
qed

text \<open>
  Claim C3, as stated, fails in three ways. For a failure that is a thrown string none of the
  allow-listed fields exists, the joined text is empty, and the fallback \<^verbatim>\<open>String(error)\<close>
  returns the string itself, here with the token in it. A text that the formatter writes
  itself, such as the label \<^verbatim>\<open>HTTP\<close>, is in the output without being in any field. And the
  formatter does not return a string for every value: when the failure's message is the object
  \<^verbatim>\<open>{"toString": 1}\<close> the join throws a \<^verbatim>\<open>TypeError\<close>.
\<close>

theorem sanitizeErrorForLogging_claim_counterexample:
  "allow_listed_fields thrown_text = [JUndefined, JUndefined, JUndefined, JUndefined]
   \<and> sanitizeErrorForLogging thrown_text = Inr ''Invalid credentials: Bearer tok123''
   \<and> sublist ''tok123'' ''Invalid credentials: Bearer tok123''
   \<and> allow_listed_fields server_error
       = [JStr ''Request failed with status code 500'', JNum 500, JUndefined,
          JStr ''ERR_BAD_RESPONSE'']
   \<and> sanitizeErrorForLogging server_error
       = Inr ''Request failed with status code 500 | HTTP 500 | code=ERR_BAD_RESPONSE''
   \<and> sublist ''HTTP'' ''Request failed with status code 500 | HTTP 500 | code=ERR_BAD_RESPONSE''
   \<and> \<not> sublist ''HTTP'' ''Request failed with status code 500''
   \<and> \<not> sublist ''HTTP'' (toString_raw (JNum 500))
   \<and> \<not> sublist ''HTTP'' ''ERR_BAD_RESPONSE''
   \<and> sanitizeErrorForLogging (JObj [(''message'', JObj [(''toString'', JNum 1)])])
       = Inl (type_error ''Cannot convert object to primitive value'')"
  by code_simp

text \<open>
  Claim C3, amended. \<^verbatim>\<open>sanitizeErrorForLogging\<close> returns \<^verbatim>\<open>Unknown error\<close> for a falsy value
  (\<^verbatim>\<open>null\<close> and \<^verbatim>\<open>undefined\<close> among them). For any other value whose truthy allow-listed fields
  convert to strings it returns, whenever that text is not empty, the text of the allow-list:
  the truthy ones of the top-level message, the status after \<^verbatim>\<open>HTTP\<close>, the upstream body's
  message and the code after \<^verbatim>\<open>code=\<close>, joined by \<^verbatim>\<open> | \<close>. That text is a function of the four
  allow-listed fields alone, so two failures that agree on them get the same output whatever
  their request configuration and headers are; and a token that occurs in none of the truthy
  allow-listed fields does not occur in the output, provided it is not empty, has no space and
  no \<^verbatim>\<open>=\<close>, and is not \<^verbatim>\<open>|\<close> or part of the labels \<^verbatim>\<open>HTTP\<close> and \<^verbatim>\<open>code\<close>. Only when the text of
  the allow-list is empty is the output \<^verbatim>\<open>String(error)\<close>, the conversion of the whole value.
\<close>

theorem sanitizeErrorForLogging_allow_list:
  "(\<not> truthy e \<longrightarrow> sanitizeErrorForLogging e = Inr ''Unknown error'')
   \<and> (truthy e \<and> (\<forall>f\<in>set (allow_listed_fields e). truthy f \<longrightarrow> converts f)
        \<and> allow_list_text (allow_listed_fields e) \<noteq> [] \<longrightarrow>
        sanitizeErrorForLogging e = Inr (allow_list_text (allow_listed_fields e)))
   \<and> (truthy e \<and> (\<forall>f\<in>set (allow_listed_fields e). truthy f \<longrightarrow> converts f)
        \<and> allow_list_text (allow_listed_fields e) = [] \<longrightarrow>
        sanitizeErrorForLogging e = toString_js e)
   \<and> (truthy e \<and> (\<forall>f\<in>set (allow_listed_fields e). truthy f \<longrightarrow> converts f)
        \<and> allow_list_text (allow_listed_fields e) \<noteq> []
        \<and> truthy e' \<and> allow_listed_fields e' = allow_listed_fields e \<longrightarrow>
        sanitizeErrorForLogging e' = sanitizeErrorForLogging e)
   \<and> (truthy e \<and> (\<forall>f\<in>set (allow_listed_fields e). truthy f \<longrightarrow> converts f)
        \<and> allow_list_text (allow_listed_fields e) \<noteq> []
        \<and> t \<noteq> [] \<and> CHR '' '' \<notin> set t \<and> CHR ''='' \<notin> set t \<and> t \<noteq> ''|''
        \<and> \<not> sublist t ''HTTP'' \<and> \<not> sublist t ''code''
        \<and> (\<forall>f\<in>set (allow_listed_fields e). truthy f \<longrightarrow> \<not> sublist t (toString_raw f)) \<longrightarrow>
        (\<exists>s. sanitizeErrorForLogging e = Inr s \<and> \<not> sublist t s))"
proof (intro conjI impI)
  assume "\<not> truthy e"
  then show "sanitizeErrorForLogging e = Inr ''Unknown error''"
    by (simp add: sanitizeErrorForLogging_def)
next
  assume "truthy e \<and> (\<forall>f\<in>set (allow_listed_fields e). truthy f \<longrightarrow> converts f)
        \<and> allow_list_text (allow_listed_fields e) \<noteq> []"
  then show "sanitizeErrorForLogging e = Inr (allow_list_text (allow_listed_fields e))"
    using sanitize_from_fields [of e] by simp
next
  assume "truthy e \<and> (\<forall>f\<in>set (allow_listed_fields e). truthy f \<longrightarrow> converts f)
        \<and> allow_list_text (allow_listed_fields e) = []"
  then show "sanitizeErrorForLogging e = toString_js e"
    using sanitize_from_fields [of e] by simp
next
  assume h: "truthy e \<and> (\<forall>f\<in>set (allow_listed_fields e). truthy f \<longrightarrow> converts f)
        \<and> allow_list_text (allow_listed_fields e) \<noteq> []
        \<and> truthy e' \<and> allow_listed_fields e' = allow_listed_fields e"
  then have "sanitizeErrorForLogging e = Inr (allow_list_text (allow_listed_fields e))"
    using sanitize_from_fields [of e] by simp
  moreover have "sanitizeErrorForLogging e' = Inr (allow_list_text (allow_listed_fields e))"
    using h sanitize_from_fields [of e'] by simp
  ultimately show "sanitizeErrorForLogging e' = sanitizeErrorForLogging e" by simp
next
  assume h: "truthy e \<and> (\<forall>f\<in>set (allow_listed_fields e). truthy f \<longrightarrow> converts f)
        \<and> allow_list_text (allow_listed_fields e) \<noteq> []
        \<and> t \<noteq> [] \<and> CHR '' '' \<notin> set t \<and> CHR ''='' \<notin> set t \<and> t \<noteq> ''|''
        \<and> \<not> sublist t ''HTTP'' \<and> \<not> sublist t ''code''
        \<and> (\<forall>f\<in>set (allow_listed_fields e). truthy f \<longrightarrow> \<not> sublist t (toString_raw f))"
  then have out: "sanitizeErrorForLogging e = Inr (allow_list_text (allow_listed_fields e))"
    using sanitize_from_fields [of e] by simp
  have "t \<noteq> []" and "CHR '' '' \<notin> set t" and "CHR ''='' \<notin> set t" and "t \<noteq> ''|''"
    and "\<not> sublist t ''HTTP''" and "\<not> sublist t ''code''"
    and "\<forall>f\<in>set [get_prop e ''message'', get_prop (get_prop e ''response'') ''status'',
                   get_prop (get_prop (get_prop e ''response'') ''data'') ''message'',
                   get_prop e ''code'']. truthy f \<longrightarrow> \<not> sublist t (toString_raw f)"
    using h unfolding allow_listed_fields_def by blast+
  then have "\<not> sublist t (allow_list_text (allow_listed_fields e))"
    unfolding allow_listed_fields_def by (rule allow_list_text_token_free)
  then show "\<exists>s. sanitizeErrorForLogging e = Inr s \<and> \<not> sublist t s" using out by simp
qed

theorem sanitizeErrorForLogging_allow_list_witness:
  "sanitizeErrorForLogging forbidden_error
     = Inr ''Request failed with status code 403 | HTTP 403 | Forbidden | code=ERR_BAD_REQUEST''
   \<and> (\<exists>s. sanitizeErrorForLogging forbidden_error = Inr s \<and> \<not> sublist ''tok123'' s)
   \<and> (\<exists>s. sanitizeErrorForLogging forbidden_error = Inr s \<and> \<not> sublist ''777'' s)
   \<and> sanitizeErrorForLogging JNull = Inr ''Unknown error''
   \<and> sanitizeErrorForLogging (JObj []) = Inr ''[object Object]''
   \<and> sanitizeErrorForLogging
         (JObj [(''message'', JStr ''Request failed with status code 403''),
                (''code'', JStr ''ERR_BAD_REQUEST''),
                (''response'', JObj [(''status'', JNum 403),
                                     (''data'', JObj [(''message'', JStr ''Forbidden'')])])])
       = sanitizeErrorForLogging forbidden_error"
proof -
  have joined: "allow_list_text (allow_listed_fields forbidden_error)
      = ''Request failed with status code 403 | HTTP 403 | Forbidden | code=ERR_BAD_REQUEST''"
    by code_simp
  have tr: "truthy forbidden_error" by (simp add: forbidden_error_def)
  have conv: "\<forall>f\<in>set (allow_listed_fields forbidden_error). truthy f \<longrightarrow> converts f"
    by code_simp
  have ne: "truthy forbidden_error
        \<and> (\<forall>f\<in>set (allow_listed_fields forbidden_error). truthy f \<longrightarrow> converts f)
        \<and> allow_list_text (allow_listed_fields forbidden_error) \<noteq> []"
    using tr conv joined by simp
  have shape1: "''tok123'' \<noteq> [] \<and> CHR '' '' \<notin> set ''tok123'' \<and> CHR ''='' \<notin> set ''tok123''
        \<and> ''tok123'' \<noteq> ''|'' \<and> \<not> sublist ''tok123'' ''HTTP'' \<and> \<not> sublist ''tok123'' ''code''"
    by code_simp
  have clean1: "\<forall>f\<in>set (allow_listed_fields forbidden_error).
        truthy f \<longrightarrow> \<not> sublist ''tok123'' (toString_raw f)"
    by code_simp
  have shape2: "''777'' \<noteq> [] \<and> CHR '' '' \<notin> set ''777'' \<and> CHR ''='' \<notin> set ''777''
        \<and> ''777'' \<noteq> ''|'' \<and> \<not> sublist ''777'' ''HTTP'' \<and> \<not> sublist ''777'' ''code''"
    by code_simp
  have clean2: "\<forall>f\<in>set (allow_listed_fields forbidden_error).
        truthy f \<longrightarrow> \<not> sublist ''777'' (toString_raw f)"
    by code_simp
  have falsy: "\<not> truthy JNull" by simp
  have empty: "truthy (JObj [])
        \<and> (\<forall>f\<in>set (allow_listed_fields (JObj [])). truthy f \<longrightarrow> converts f)
        \<and> allow_list_text (allow_listed_fields (JObj [])) = []"
    by code_simp
  have same: "truthy (JObj [(''message'', JStr ''Request failed with status code 403''),
                (''code'', JStr ''ERR_BAD_REQUEST''),
                (''response'', JObj [(''status'', JNum 403),
                                     (''data'', JObj [(''message'', JStr ''Forbidden'')])])])
      \<and> allow_listed_fields
           (JObj [(''message'', JStr ''Request failed with status code 403''),
                  (''code'', JStr ''ERR_BAD_REQUEST''),
                  (''response'', JObj [(''status'', JNum 403),
                                       (''data'', JObj [(''message'', JStr ''Forbidden'')])])])
         = allow_listed_fields forbidden_error"
    by code_simp
  note inst = sanitizeErrorForLogging_allow_list
  have one: "sanitizeErrorForLogging forbidden_error
     = Inr ''Request failed with status code 403 | HTTP 403 | Forbidden | code=ERR_BAD_REQUEST''"
    using inst [of forbidden_error, THEN conjunct2, THEN conjunct1, rule_format, OF ne]
    by (simp only: joined)
  have two: "\<exists>s. sanitizeErrorForLogging forbidden_error = Inr s \<and> \<not> sublist ''tok123'' s"
    using inst [of forbidden_error _ "''tok123''", THEN conjunct2, THEN conjunct2,
        THEN conjunct2, THEN conjunct2] ne shape1 clean1
    by blast
  have three: "\<exists>s. sanitizeErrorForLogging forbidden_error = Inr s \<and> \<not> sublist ''777'' s"
    using inst [of forbidden_error _ "''777''", THEN conjunct2, THEN conjunct2,
        THEN conjunct2, THEN conjunct2] ne shape2 clean2
    by blast
  have four: "sanitizeErrorForLogging JNull = Inr ''Unknown error''"
    by (rule inst [of JNull, THEN conjunct1, rule_format, OF falsy])
  have five: "sanitizeErrorForLogging (JObj []) = Inr ''[object Object]''"
    using inst [of "JObj []", THEN conjunct2, THEN conjunct2, THEN conjunct1, rule_format, OF empty]
    by (simp add: toString_js_def)
  have six: "sanitizeErrorForLogging
         (JObj [(''message'', JStr ''Request failed with status code 403''),
                (''code'', JStr ''ERR_BAD_REQUEST''),
                (''response'', JObj [(''status'', JNum 403),
                                     (''data'', JObj [(''message'', JStr ''Forbidden'')])])])
       = sanitizeErrorForLogging forbidden_error"
    using inst [of forbidden_error
        "JObj [(''message'', JStr ''Request failed with status code 403''),
               (''code'', JStr ''ERR_BAD_REQUEST''),
               (''response'', JObj [(''status'', JNum 403),
                                    (''data'', JObj [(''message'', JStr ''Forbidden'')])])]",
        THEN conjunct2, THEN conjunct2, THEN conjunct2, THEN conjunct1] ne same
    by blast
  show ?thesis using one two three four five six by (intro conjI)
qed

section \<open>Properties of the failure reports\<close>










section \<open>Properties of get\_todays\_time\<close>

lemma entry_summary_well_formed:
  "well_formed_entry e \<Longrightarrow> entry_summary e = Inr (summary_of e)"
  by (simp add: well_formed_entry_def entry_summary_def summary_of_def member_present bind_res_def)

lemma map_res_summaries:
  "\<forall>e\<in>set es. well_formed_entry e \<Longrightarrow> map_res entry_summary es = Inr (map summary_of es)"
  by (induction es) (simp_all add: entry_summary_well_formed bind_res_def)

lemma hours_summary:
  "well_formed_entry e \<Longrightarrow> get_prop (summary_of e) ''hours'' = JNum (hours_of e)"
  by (auto simp: well_formed_entry_def summary_of_def hours_of_def split: jsval.splits)

lemma to_double_is_number: "is_number (to_double v)"
  by (simp add: to_double_def Let_def)

lemma num_add_is_number: "is_number a \<Longrightarrow> is_number (num_add a (JNum h))"
  by (cases a) (simp_all add: num_add_def to_double_is_number)

lemma js_add_number: "is_number a \<Longrightarrow> js_add a (JNum h) = Inr (num_add a (JNum h))"
  by (cases a) (simp_all add: js_add_def bind_res_def)

lemma reduce_hours:
  "\<forall>e\<in>set es. well_formed_entry e \<Longrightarrow> is_number a \<Longrightarrow>
   reduce_res (\<lambda>sum e. js_add sum (get_prop e ''hours'')) a (map summary_of es)
     = Inr (foldl (\<lambda>acc h. num_add acc (JNum h)) a (map hours_of es))"
proof (induction es arbitrary: a)
  case Nil
  then show ?case by simp
next
  case (Cons e es)
  have "is_number (num_add a (JNum (hours_of e)))"
    using Cons.prems(2) by (rule num_add_is_number)
  then show ?case
    using Cons by (simp add: hours_summary js_add_number bind_res_def)
qed

lemma totalHours_float_sum:
  "\<forall>e\<in>set es. well_formed_entry e \<Longrightarrow>
   totalHours (map summary_of es) = Inr (float_sum (map hours_of es))"
  using reduce_hours [of es "JNum 0"] by (simp add: totalHours_def float_sum_def)

lemma float_sum_from_exact:
  "\<forall>k. 0 < k \<and> k \<le> length hs \<longrightarrow> is_double (a + sum_list (take k hs)) \<Longrightarrow>
   foldl (\<lambda>acc h. num_add acc (JNum h)) (JNum a) hs = JNum (a + sum_list hs)"
proof (induction hs arbitrary: a)
  case Nil
  then show ?case by simp
next
  case (Cons h hs)
  have "is_double (a + sum_list (take 1 (h # hs)))" using Cons.prems by force
  then have first: "num_add (JNum a) (JNum h) = JNum (a + h)"
    by (simp add: num_add_def is_double_def)
  have "\<forall>k. 0 < k \<and> k \<le> length hs \<longrightarrow> is_double ((a + h) + sum_list (take k hs))"
  proof (intro allI impI)
    fix k assume "0 < k \<and> k \<le> length hs"
    then have "is_double (a + sum_list (take (Suc k) (h # hs)))" using Cons.prems by force
    then show "is_double ((a + h) + sum_list (take k hs))" by (simp add: add.assoc)
  qed
  then have "foldl (\<lambda>acc h. num_add acc (JNum h)) (JNum (a + h)) hs = JNum ((a + h) + sum_list hs)"
    by (rule Cons.IH)
  then show ?case using first by (simp add: add.assoc)
qed

lemma float_sum_exact:
  assumes "\<forall>k\<le>length hs. is_double (sum_list (take k hs))"
  shows "float_sum hs = JNum (sum_list hs)"
  using float_sum_from_exact [of hs 0] assms by (simp add: float_sum_def)

lemma digit_char_is_digit:
  assumes "d < 10"
  shows "is_digit (digit_char d)"
proof -
  have "d < length ''0123456789''" using assms by simp
  then show ?thesis unfolding is_digit_def digit_char_def by (rule nth_mem)
qed

lemma decimal_digits_digits: "list_all is_digit (decimal_digits k)"
proof (induction k rule: decimal_digits.induct)
  case (1 k)
  show ?case
  proof (cases "k < 10")
    case True
    then show ?thesis by (subst decimal_digits.simps) (simp add: digit_char_is_digit)
  next
    case False
    then have "list_all is_digit (decimal_digits (k div 10))" using 1 by simp
    moreover have "is_digit (digit_char (nat (k mod 10)))"
      by (rule digit_char_is_digit) simp
    ultimately show ?thesis using False by (subst decimal_digits.simps) simp
  qed
qed

lemma decimal_digits_nonempty: "decimal_digits k \<noteq> []"
  by (subst decimal_digits.simps) simp

lemma decimal_digits_small: "k < 10 \<Longrightarrow> decimal_digits k = [digit_char (nat k)]"
  by (subst decimal_digits.simps) simp

lemma decimal_digits_step:
  "10 \<le> k \<Longrightarrow> decimal_digits k = decimal_digits (k div 10) @ [digit_char (nat (k mod 10))]"
  by (subst decimal_digits.simps) simp

lemma number_toString_nat:
  assumes "n < 2 ^ 53"
  shows "number_toString (of_nat n) = decimal_digits (int n)"
proof (cases "n = 0")
  case True
  then show ?thesis by (simp add: number_toString_def decimal_digits_small digit_char_def)
next
  case False
  have "(of_nat n :: rat) < 2 ^ 53"
    using assms by (metis of_nat_less_iff of_nat_numeral of_nat_power)
  moreover have "\<exists>m. (of_nat n :: rat) = of_int m"
    by (rule exI [of _ "int n"]) simp
  ultimately show ?thesis using False by (simp add: number_toString_def Let_def)
qed

lemma decimal_digits_two:
  assumes "0 \<le> r" and "r < 100"
  shows "pad_left 2 r = [digit_char (nat (r div 10)), digit_char (nat (r mod 10))]"
proof (cases "r < 10")
  case True
  then have "r div 10 = 0" and "r mod 10 = r" using assms(1) by simp_all
  then show ?thesis
    using True by (simp add: pad_left_def decimal_digits_small digit_char_def)
next
  case False
  then have "r div 10 < 10" using assms(2) by simp
  then show ?thesis
    using False by (simp add: pad_left_def decimal_digits_step decimal_digits_small)
qed

lemma decimal_digits_hundreds:
  assumes "100 \<le> n"
  shows "decimal_digits n
           = decimal_digits (n div 100)
             @ [digit_char (nat (n mod 100 div 10)), digit_char (nat (n mod 100 mod 10))]"
proof -
  have a: "n div 10 div 10 = n div 100"
    using zdiv_zmult2_eq [of 10 n 10] by simp
  have m: "n mod 100 = 10 * (n div 10 mod 10) + n mod 10"
    using zmod_zmult2_eq [of 10 n 10] by simp
  have b: "n div 10 mod 10 = n mod 100 div 10"
    unfolding m by simp
  have c: "n mod 100 mod 10 = n mod 10"
    by (rule mod_mod_cancel) simp
  have "10 \<le> n" using assms by simp
  then have s1: "decimal_digits n = decimal_digits (n div 10) @ [digit_char (nat (n mod 10))]"
    by (rule decimal_digits_step)
  have "10 \<le> n div 10" using zdiv_mono1 [of 100 n 10] assms by simp
  then have s2: "decimal_digits (n div 10)
      = decimal_digits (n div 10 div 10) @ [digit_char (nat (n div 10 mod 10))]"
    by (rule decimal_digits_step)
  show ?thesis by (simp only: s1 s2 a b c append_assoc append.simps)
qed

lemma padded_digits_split:
  assumes "0 \<le> n"
  defines "m' \<equiv> replicate (3 - length (decimal_digits n)) (CHR ''0'') @ decimal_digits n"
  shows "take (length m' - 2) m' = decimal_digits (n div 100)"
    and "drop (length m' - 2) m' = pad_left 2 (n mod 100)"
proof -
  have r: "0 \<le> n mod 100" "n mod 100 < 100" by simp_all
  note two = decimal_digits_two [OF r]
  consider "n < 10" | "10 \<le> n" "n < 100" | "100 \<le> n" by linarith
  then have "take (length m' - 2) m' = decimal_digits (n div 100)
      \<and> drop (length m' - 2) m' = pad_left 2 (n mod 100)"
  proof cases
    case 1
    then have "n div 100 = 0" and "n mod 100 = n" and "n div 10 = 0" and "n mod 10 = n"
      using assms(1) by simp_all
    then show ?thesis
      using 1 two unfolding m'_def
      by (simp add: decimal_digits_small digit_char_def numeral_3_eq_3)
  next
    case 2
    then have "n div 100 = 0" and "n mod 100 = n" and "n div 10 < 10" by simp_all
    then show ?thesis
      using 2 two unfolding m'_def
      by (simp add: decimal_digits_step decimal_digits_small digit_char_def)
  next
    case 3
    have "decimal_digits (n div 100) \<noteq> []" by (rule decimal_digits_nonempty)
    then have "Suc 0 \<le> length (decimal_digits (n div 100))"
      by (cases "decimal_digits (n div 100)") simp_all
    then show ?thesis
      using 3 two unfolding m'_def by (simp add: decimal_digits_hundreds)
  qed
  then show "take (length m' - 2) m' = decimal_digits (n div 100)"
    and "drop (length m' - 2) m' = pad_left 2 (n mod 100)"
    by simp_all
qed

lemma toFixed2_two_decimals:
  assumes "\<bar>x\<bar> < 10 ^ 21"
  shows "toFixed2 x = (if x < 0 then ''-'' else [])
           @ decimal_digits (\<lfloor>100 * \<bar>x\<bar> + 1 / 2\<rfloor> div 100) @ ''.''
           @ pad_left 2 (\<lfloor>100 * \<bar>x\<bar> + 1 / 2\<rfloor> mod 100)"
proof -
  have abs: "(if x < 0 then - x else x) = \<bar>x\<bar>" by simp
  have "0 \<le> 100 * \<bar>x\<bar> + 1 / 2" by simp
  then have nonneg: "0 \<le> \<lfloor>100 * \<bar>x\<bar> + 1 / 2\<rfloor>" by (simp only: zero_le_floor)
  show ?thesis
    using assms padded_digits_split [OF nonneg]
    unfolding toFixed2_def abs Let_def by simp
qed

lemma two_digits:
  assumes "0 \<le> r" and "r < 100"
  shows "length (pad_left 2 r) = 2 \<and> list_all is_digit (pad_left 2 r)"
proof -
  have "nat (r div 10) < 10" and "nat (r mod 10) < 10" using assms by simp_all
  then show ?thesis
    using decimal_digits_two [OF assms] by (simp add: digit_char_is_digit)
qed

text \<open>
  Claim C8. When the upstream answers \<^verbatim>\<open>get_todays_time\<close> with a list of time entries (each
  with its project, its task and an \<^verbatim>\<open>hours\<close> that is a finite double), the tool's text starts
  with the summary line \<^verbatim>\<open>Today's time entries (<count> total, <sum> hours):\<close>. The count is the
  number of entries in decimal digits. The sum is the total of the hours as the doubles add up
  from zero in the order of the list, which is their exact sum whenever every partial sum is a
  double; a total below \<open>10\<^sup>2\<^sup>1\<close> in magnitude is rendered as \<^verbatim>\<open>toFixed(2)\<close> renders it: a sign if
  negative, the digits of the integer part, a point and exactly two digits, those of the
  hundredth nearest to the total. For the three entries of 1, 2.25 and 0.5 hours the line reads
  \<^verbatim>\<open>3 total, 3.75 hours\<close>.
\<close>

theorem todays_summary_line:
  assumes answered: "up (requests w) (todays_request now) = Inr data"
    and listed: "get_prop data ''time_entries'' = JArr es"
    and array: "length es < 2 ^ 32"
    and wf: "\<forall>e\<in>set es. well_formed_entry e"
    and total: "float_sum (map hours_of es) = JNum t"
    and bounded: "\<bar>t\<bar> < 10 ^ 21"
  shows "get_todays_time up stringify now w
           = (Inr \<lparr>content_text =
                     ''Today's time entries ('' @ decimal_digits (int (length es)) @ '' total, ''
                     @ toFixed2 t @ '' hours):\<newline>\<newline>''
                     @ stringify (JArr (map summary_of es)),
                   isError = False\<rparr>,
              w\<lparr>requests := requests w @ [todays_request now]\<rparr>)
         \<and> toFixed2 t = (if t < 0 then ''-'' else [])
              @ decimal_digits (\<lfloor>100 * \<bar>t\<bar> + 1 / 2\<rfloor> div 100) @ ''.''
              @ pad_left 2 (\<lfloor>100 * \<bar>t\<bar> + 1 / 2\<rfloor> mod 100)
         \<and> list_all is_digit (decimal_digits (\<lfloor>100 * \<bar>t\<bar> + 1 / 2\<rfloor> div 100))
         \<and> length (pad_left 2 (\<lfloor>100 * \<bar>t\<bar> + 1 / 2\<rfloor> mod 100)) = 2
         \<and> list_all is_digit (pad_left 2 (\<lfloor>100 * \<bar>t\<bar> + 1 / 2\<rfloor> mod 100))
         \<and> ((\<forall>k\<le>length es. is_double (sum_list (take k (map hours_of es))))
              \<longrightarrow> t = sum_list (map hours_of es))"
proof (intro conjI impI)
  have present: "member data ''time_entries'' = Inr (JArr es)"
    using member_present [OF get_prop_not_nullish [OF listed]] listed by simp
  have "length es < 2 ^ 53" using array by simp
  then have count: "number_toString (of_nat (length es)) = decimal_digits (int (length es))"
    by (rule number_toString_nat)
  have rendered: "todays_text stringify data
      = Inr (''Today's time entries ('' @ decimal_digits (int (length es)) @ '' total, ''
             @ toFixed2 t @ '' hours):\<newline>\<newline>''
             @ stringify (JArr (map summary_of es)))"
    using map_res_summaries [OF wf] totalHours_float_sum [OF wf] total
    by (simp add: todays_text_def present array_receiver_def bind_res_def count)
  show "get_todays_time up stringify now w
           = (Inr \<lparr>content_text =
                     ''Today's time entries ('' @ decimal_digits (int (length es)) @ '' total, ''
                     @ toFixed2 t @ '' hours):\<newline>\<newline>''
                     @ stringify (JArr (map summary_of es)),
                   isError = False\<rparr>,
              w\<lparr>requests := requests w @ [todays_request now]\<rparr>)"
    using answered rendered
    by (simp add: get_todays_time_def call_upstream_def bind_res_def catch_with_def ok_envelope_def)
next
  show "toFixed2 t = (if t < 0 then ''-'' else [])
              @ decimal_digits (\<lfloor>100 * \<bar>t\<bar> + 1 / 2\<rfloor> div 100) @ ''.''
              @ pad_left 2 (\<lfloor>100 * \<bar>t\<bar> + 1 / 2\<rfloor> mod 100)"
    using bounded by (rule toFixed2_two_decimals)
next
  show "list_all is_digit (decimal_digits (\<lfloor>100 * \<bar>t\<bar> + 1 / 2\<rfloor> div 100))"
    by (rule decimal_digits_digits)
next
  show "length (pad_left 2 (\<lfloor>100 * \<bar>t\<bar> + 1 / 2\<rfloor> mod 100)) = 2"
    using two_digits [of "\<lfloor>100 * \<bar>t\<bar> + 1 / 2\<rfloor> mod 100"] by simp
next
  show "list_all is_digit (pad_left 2 (\<lfloor>100 * \<bar>t\<bar> + 1 / 2\<rfloor> mod 100))"
    using two_digits [of "\<lfloor>100 * \<bar>t\<bar> + 1 / 2\<rfloor> mod 100"] by simp
next
  assume "\<forall>k\<le>length es. is_double (sum_list (take k (map hours_of es)))"
  then have "float_sum (map hours_of es) = JNum (sum_list (map hours_of es))"
    using float_sum_exact [of "map hours_of es"] by simp
  then show "t = sum_list (map hours_of es)" using total by simp
qed

theorem todays_summary_line_witness:
  "get_todays_time (\<lambda>sent req. Inr (JObj [(''time_entries'', JArr three_entries)]))
       (\<lambda>v. ''[]'') 1704159000000 \<lparr>timestamps = [], requests = []\<rparr>
     = (Inr \<lparr>content_text = ''Today's time entries (3 total, 3.75 hours):\<newline>\<newline>[]'',
              isError = False\<rparr>,
        \<lparr>timestamps = [], requests = [todays_request 1704159000000]\<rparr>)
   \<and> float_sum (map hours_of three_entries) = JNum (sum_list (map hours_of three_entries))"
proof -
  have answered: "(\<lambda>sent req. Inr (JObj [(''time_entries'', JArr three_entries)]))
                    (requests \<lparr>timestamps = [], requests = []\<rparr>) (todays_request 1704159000000)
                  = Inr (JObj [(''time_entries'', JArr three_entries)])"
    by simp
  have listed: "get_prop (JObj [(''time_entries'', JArr three_entries)]) ''time_entries''
                = JArr three_entries"
    by simp
  have array: "length three_entries < 2 ^ 32" by (simp add: three_entries_def)
  have d1: "is_double 1" and d2: "is_double (9 / 4)" and d3: "is_double (1 / 2)"
    and d4: "is_double (13 / 4)" and d5: "is_double (15 / 4)" and d0: "is_double 0"
    by code_simp+
  have wf: "\<forall>e\<in>set three_entries. well_formed_entry e"
    by (simp add: three_entries_def example_entry_def well_formed_entry_def d1 d2 d3)
  have hours: "map hours_of three_entries = [1, 9 / 4, 1 / 2]"
    by (simp add: three_entries_def example_entry_def hours_of_def)
  have total: "float_sum (map hours_of three_entries) = JNum (15 / 4)"
    unfolding hours by code_simp
  have bounded: "\<bar>15 / 4 :: rat\<bar> < 10 ^ 21" by simp
  have partial: "\<forall>k\<le>length three_entries.
      is_double (sum_list (take k (map hours_of three_entries)))"
  proof (intro allI impI)
    fix k assume "k \<le> length three_entries"
    then have "k = 0 \<or> k = 1 \<or> k = 2 \<or> k = 3" by (auto simp: three_entries_def)
    then show "is_double (sum_list (take k (map hours_of three_entries)))"
      unfolding hours using d0 d1 d4 d5 by (auto simp: numeral_2_eq_2 numeral_3_eq_3)
  qed
  have count: "decimal_digits (int (length three_entries)) = ''3''"
    unfolding three_entries_def by code_simp
  have fixed: "toFixed2 (15 / 4) = ''3.75''" by code_simp
  note inst = todays_summary_line [OF answered listed array wf total bounded, of "\<lambda>v. ''[]''"]
  have shown: "get_todays_time (\<lambda>sent req. Inr (JObj [(''time_entries'', JArr three_entries)]))
       (\<lambda>v. ''[]'') 1704159000000 \<lparr>timestamps = [], requests = []\<rparr>
     = (Inr \<lparr>content_text = ''Today's time entries (3 total, 3.75 hours):\<newline>\<newline>[]'',
              isError = False\<rparr>,
        \<lparr>timestamps = [], requests = [todays_request 1704159000000]\<rparr>)"
    using inst [THEN conjunct1] by (simp add: count fixed)
  have exact: "(15 / 4 :: rat) = sum_list (map hours_of three_entries)"
    using inst [THEN conjunct2, THEN conjunct2, THEN conjunct2, THEN conjunct2, THEN conjunct2]
      partial
    by (simp only: simp_thms)
  show ?thesis using shown total exact by simp
qed

text \<open>
  The arithmetic is that of doubles. The JSON number 1.005 is a double just below 1.005 and
  prints as 1.00; the doubles of 0.12 and 0.005 add up to exactly 0.125, which prints as 0.13;
  0.1 plus 0.2 is not 0.3; and a number prints with an exponent from \<open>10\<^sup>2\<^sup>1\<close> on and below
  \<open>10\<^sup>-\<^sup>6\<close>.
\<close>

lemma double_arithmetic_examples:
  "json_number (1005 / 1000) = JNum (1131529406376837 / 1125899906842624)"
  "toFixed2 (1131529406376837 / 1125899906842624) = ''1.00''"
  "json_number (12 / 100) = JNum (1080863910568919 / 9007199254740992)"
  "json_number (5 / 1000) = JNum (5764607523034235 / 1152921504606846976)"
  "float_sum [1080863910568919 / 9007199254740992, 5764607523034235 / 1152921504606846976]
     = JNum (1 / 8)"
  "toFixed2 (1 / 8) = ''0.13''"
  "num_add (json_number (1 / 10)) (json_number (2 / 10)) \<noteq> json_number (3 / 10)"
  by code_simp+

lemma number_rendering_examples:
  "number_toString (10 ^ 21) = ''1e+21''"
  "number_toString (944473296573929 / 9444732965739290427392) = ''1e-7''"
  "number_toString (3602879701896397 / 36028797018963968) = ''0.1''"
  "number_toString (5 / 2) = ''2.5''"
  "number_toString (- 42) = ''-42''"
  by code_simp+

text \<open>
  The same through the handler: one entry whose hours are the JSON number 1.005, and two
  entries of 0.12 and 0.005 hours.
\<close>

lemma todays_total_examples:
  "fst (get_todays_time
          (\<lambda>sent req. Inr (JObj [(''time_entries'',
              JArr [example_entry 1 (1131529406376837 / 1125899906842624)])]))
          (\<lambda>v. []) 0 \<lparr>timestamps = [], requests = []\<rparr>)
     = Inr \<lparr>content_text = ''Today's time entries (1 total, 1.00 hours):\<newline>\<newline>'',
            isError = False\<rparr>"
  "fst (get_todays_time
          (\<lambda>sent req. Inr (JObj [(''time_entries'',
              JArr [example_entry 1 (1080863910568919 / 9007199254740992),
                    example_entry 2 (5764607523034235 / 1152921504606846976)])]))
          (\<lambda>v. []) 0 \<lparr>timestamps = [], requests = []\<rparr>)
     = Inr \<lparr>content_text = ''Today's time entries (2 total, 0.13 hours):\<newline>\<newline>'',
            isError = False\<rparr>"
  by code_simp+

section \<open>Properties of the date used as today\<close>

lemma split_char_first:
  "c \<notin> set a \<Longrightarrow> split_char c (a @ c # b) = a # split_char c b"
  by (induction a) auto

lemma is_digit_not_T: "is_digit c \<Longrightarrow> c \<noteq> CHR ''T''"
  by (auto simp: is_digit_def)

lemma pad_left_no_T: "CHR ''T'' \<notin> set (pad_left w n)"
proof
  assume "CHR ''T'' \<in> set (pad_left w n)"
  then have "CHR ''T'' \<in> set (decimal_digits n)"
    by (auto simp: pad_left_def)
  then have "is_digit (CHR ''T'')"
    using decimal_digits_digits [of n] by (simp add: list_all_iff)
  then show False using is_digit_not_T by blast
qed

lemma year_string_no_T: "CHR ''T'' \<notin> set (year_string y)"
  using pad_left_no_T [of 4 y] pad_left_no_T [of 6 "- y"] pad_left_no_T [of 6 y]
  by (simp add: year_string_def)

lemma date_string_no_T: "CHR ''T'' \<notin> set (date_string ymd)"
proof -
  obtain y m d where ymd: "ymd = (y, m, d)" by (cases ymd)
  show ?thesis
    using year_string_no_T [of y] pad_left_no_T [of 2 m] pad_left_no_T [of 2 d]
    by (simp add: ymd date_string_def)
qed

lemma toISOString_shape:
  "\<exists>clock. toISOString t = date_string (civil_from_days (t div msPerDay)) @ ''T'' @ clock"
  by (simp add: toISOString_def Let_def)

lemma formatDate_date_part: "formatDate t = date_string (civil_from_days (t div msPerDay))"
proof -
  obtain clock where iso: "toISOString t
      = date_string (civil_from_days (t div msPerDay)) @ CHR ''T'' # clock"
    using toISOString_shape by auto
  show ?thesis
    unfolding formatDate_def iso split_char_first [OF date_string_no_T] by simp
qed

lemma toISOString_examples:
  "toISOString 0 = ''1970-01-01T00:00:00.000Z''
   \<and> toISOString (- 1) = ''1969-12-31T23:59:59.999Z''
   \<and> toISOString 951782400000 = ''2000-02-29T00:00:00.000Z''
   \<and> toISOString 1709251199999 = ''2024-02-29T23:59:59.999Z''
   \<and> toISOString 4107542400000 = ''2100-03-01T00:00:00.000Z''
   \<and> toISOString 253402300800000 = ''+010000-01-01T00:00:00.000Z''
   \<and> toISOString (- 62198755200001) = ''-000002-12-31T23:59:59.999Z''"
  by code_simp

lemma get_todays_time_state:
  "snd (get_todays_time up stringify now w) = w\<lparr>requests := requests w @ [todays_request now]\<rparr>"
  by (simp add: get_todays_time_def call_upstream_def)

text \<open>
  Claim C9. The date the server uses as today is the date portion of the ISO-8601 UTC
  timestamp of the clock reading: \<^verbatim>\<open>formatDate\<close> returns the calendar date of the day number
  \<open>now div msPerDay\<close>, which is the text of \<^verbatim>\<open>toISOString\<close> before its \<^verbatim>\<open>T\<close>; no time zone
  enters. The request that \<^verbatim>\<open>get_todays_time\<close> sends has it as both bounds; the request that an
  admitted \<^verbatim>\<open>log_time\<close> sends has it as \<^verbatim>\<open>spent_date\<close> when no date is supplied (and the
  supplied date otherwise), and the request that an admitted \<^verbatim>\<open>start_timer\<close> sends always has
  it. It is not the host's local date: at 2024-01-02T01:30Z the server's today is 2024-01-02
  while a host five hours behind UTC is still on 2024-01-01.
\<close>

theorem today_is_utc_date:
  "formatDate now = date_string (civil_from_days (now div msPerDay))
   \<and> (\<exists>clock. toISOString now = formatDate now @ ''T'' @ clock)
   \<and> requests (snd (get_todays_time up stringify now w))
       = requests w
         @ [Get ''/time_entries'' [(''from'', JStr (formatDate now)), (''to'', JStr (formatDate now))]]
   \<and> (length (filter (\<lambda>ts. t - ts < 60000) (timestamps w)) < 30 \<longrightarrow>
        requests (snd (log_time up t now project_id task_id None hours memo w))
          = requests w
            @ [Post ''/time_entries''
                 (JObj [(''project_id'', JNum (of_int project_id)),
                        (''task_id'', JNum (of_int task_id)),
                        (''spent_date'', JStr (formatDate now)), (''hours'', JNum hours),
                        (''notes'', JStr (or_default memo []))])]
        \<and> (supplied \<noteq> [] \<longrightarrow>
             requests (snd (log_time up t now project_id task_id (Some supplied) hours memo w))
               = requests w
                 @ [Post ''/time_entries''
                      (JObj [(''project_id'', JNum (of_int project_id)),
                             (''task_id'', JNum (of_int task_id)),
                             (''spent_date'', JStr supplied), (''hours'', JNum hours),
                             (''notes'', JStr (or_default memo []))])])
        \<and> requests (snd (start_timer up t now project_id task_id memo w))
          = requests w
            @ [Post ''/time_entries''
                 (JObj [(''project_id'', JNum (of_int project_id)),
                        (''task_id'', JNum (of_int task_id)),
                        (''spent_date'', JStr (formatDate now)),
                        (''notes'', JStr (or_default memo []))])])
   \<and> toISOString 1704159000000 = ''2024-01-02T01:30:00.000Z''
   \<and> formatDate 1704159000000 = ''2024-01-02''
   \<and> local_date (- 300) 1704159000000 = ''2024-01-01''"
proof (intro conjI impI)
  show "formatDate now = date_string (civil_from_days (now div msPerDay))"
    by (rule formatDate_date_part)
  show "\<exists>clock. toISOString now = formatDate now @ ''T'' @ clock"
    unfolding formatDate_date_part by (rule toISOString_shape)
  show "requests (snd (get_todays_time up stringify now w))
       = requests w
         @ [Get ''/time_entries'' [(''from'', JStr (formatDate now)), (''to'', JStr (formatDate now))]]"
    by (simp add: get_todays_time_state todays_request_def Let_def)
  show "toISOString 1704159000000 = ''2024-01-02T01:30:00.000Z''" by code_simp
  show "formatDate 1704159000000 = ''2024-01-02''" by code_simp
  show "local_date (- 300) 1704159000000 = ''2024-01-01''" by code_simp
next
  assume adm: "length (filter (\<lambda>ts. t - ts < 60000) (timestamps w)) < 30"
  show "requests (snd (log_time up t now project_id task_id None hours memo w))
          = requests w
            @ [Post ''/time_entries''
                 (JObj [(''project_id'', JNum (of_int project_id)),
                        (''task_id'', JNum (of_int task_id)),
                        (''spent_date'', JStr (formatDate now)), (''hours'', JNum hours),
                        (''notes'', JStr (or_default memo []))])]"
    using log_time_admitted(1) [OF adm, of up now project_id task_id None hours memo]
    by (simp add: log_time_request_def Let_def) (simp add: or_default_def)
next
  assume adm: "length (filter (\<lambda>ts. t - ts < 60000) (timestamps w)) < 30"
    and given: "supplied \<noteq> []"
  show "requests (snd (log_time up t now project_id task_id (Some supplied) hours memo w))
               = requests w
                 @ [Post ''/time_entries''
                      (JObj [(''project_id'', JNum (of_int project_id)),
                             (''task_id'', JNum (of_int task_id)),
                             (''spent_date'', JStr supplied), (''hours'', JNum hours),
                             (''notes'', JStr (or_default memo []))])]"
    using log_time_admitted(1) [OF adm, of up now project_id task_id "Some supplied" hours memo]
      given
    by (simp add: log_time_request_def Let_def) (simp add: or_default_def)
next
  assume adm: "length (filter (\<lambda>ts. t - ts < 60000) (timestamps w)) < 30"
  show "requests (snd (start_timer up t now project_id task_id memo w))
          = requests w
            @ [Post ''/time_entries''
                 (JObj [(''project_id'', JNum (of_int project_id)),
                        (''task_id'', JNum (of_int task_id)),
                        (''spent_date'', JStr (formatDate now)),
                        (''notes'', JStr (or_default memo []))])]"
    using start_timer_admitted(1) [OF adm, of up now project_id task_id memo]
    by (simp add: start_timer_request_def)
qed

theorem today_is_utc_date_witness:
  "requests (snd (get_todays_time (\<lambda>sent req. Inr JNull) (\<lambda>v. []) 1704159000000
                    \<lparr>timestamps = [], requests = []\<rparr>))
     = [Get ''/time_entries'' [(''from'', JStr ''2024-01-02''), (''to'', JStr ''2024-01-02'')]]
   \<and> requests (snd (log_time (\<lambda>sent req. Inr JNull) 1704159000000 1704159000000 7 8 None 1 None
                      \<lparr>timestamps = [], requests = []\<rparr>))
     = [Post ''/time_entries''
          (JObj [(''project_id'', JNum 7), (''task_id'', JNum 8),
                 (''spent_date'', JStr ''2024-01-02''), (''hours'', JNum 1),
                 (''notes'', JStr [])])]
   \<and> requests (snd (log_time (\<lambda>sent req. Inr JNull) 1704159000000 1704159000000 7 8
                      (Some ''2023-12-24'') 1 None \<lparr>timestamps = [], requests = []\<rparr>))
     = [Post ''/time_entries''
          (JObj [(''project_id'', JNum 7), (''task_id'', JNum 8),
                 (''spent_date'', JStr ''2023-12-24''), (''hours'', JNum 1),
                 (''notes'', JStr [])])]
   \<and> requests (snd (start_timer (\<lambda>sent req. Inr JNull) 1704159000000 1704159000000 7 8 None
                      \<lparr>timestamps = [], requests = []\<rparr>))
     = [Post ''/time_entries''
          (JObj [(''project_id'', JNum 7), (''task_id'', JNum 8),
                 (''spent_date'', JStr ''2024-01-02''), (''notes'', JStr [])])]
   \<and> local_date (- 300) 1704159000000 \<noteq> formatDate 1704159000000"
proof -
  have adm: "length (filter (\<lambda>ts. 1704159000000 - ts < 60000)
                       (timestamps \<lparr>timestamps = [], requests = []\<rparr>)) < 30"
    by simp
  have given: "''2023-12-24'' \<noteq> []" by simp
  note inst = today_is_utc_date
      [where now = 1704159000000 and t = 1704159000000
         and w = "\<lparr>timestamps = [], requests = []\<rparr>" and up = "\<lambda>sent req. Inr JNull"
         and stringify = "\<lambda>v. []" and project_id = 7 and task_id = 8 and hours = 1
         and memo = None and supplied = "''2023-12-24''"]
  have today: "formatDate 1704159000000 = ''2024-01-02''"
    by (rule inst [THEN conjunct2, THEN conjunct2, THEN conjunct2, THEN conjunct2,
          THEN conjunct2, THEN conjunct1])
  have local: "local_date (- 300) 1704159000000 = ''2024-01-01''"
    by (rule inst [THEN conjunct2, THEN conjunct2, THEN conjunct2, THEN conjunct2,
          THEN conjunct2, THEN conjunct2])
  have listed: "requests (snd (get_todays_time (\<lambda>sent req. Inr JNull) (\<lambda>v. []) 1704159000000
                    \<lparr>timestamps = [], requests = []\<rparr>))
     = [Get ''/time_entries'' [(''from'', JStr ''2024-01-02''), (''to'', JStr ''2024-01-02'')]]"
    using inst [THEN conjunct2, THEN conjunct2, THEN conjunct1] by (simp add: today)
  note writes = inst [THEN conjunct2, THEN conjunct2, THEN conjunct2, THEN conjunct1,
      rule_format, OF adm]
  have logged: "requests (snd (log_time (\<lambda>sent req. Inr JNull) 1704159000000 1704159000000 7 8
                      None 1 None \<lparr>timestamps = [], requests = []\<rparr>))
     = [Post ''/time_entries''
          (JObj [(''project_id'', JNum 7), (''task_id'', JNum 8),
                 (''spent_date'', JStr ''2024-01-02''), (''hours'', JNum 1),
                 (''notes'', JStr [])])]"
    using writes [THEN conjunct1] by (simp add: today or_default_def)
  have dated: "requests (snd (log_time (\<lambda>sent req. Inr JNull) 1704159000000 1704159000000 7 8
                      (Some ''2023-12-24'') 1 None \<lparr>timestamps = [], requests = []\<rparr>))
     = [Post ''/time_entries''
          (JObj [(''project_id'', JNum 7), (''task_id'', JNum 8),
                 (''spent_date'', JStr ''2023-12-24''), (''hours'', JNum 1),
                 (''notes'', JStr [])])]"
    using writes [THEN conjunct2, THEN conjunct1, rule_format, OF given]
    by (simp add: or_default_def)
  have started: "requests (snd (start_timer (\<lambda>sent req. Inr JNull) 1704159000000 1704159000000
                      7 8 None \<lparr>timestamps = [], requests = []\<rparr>))
     = [Post ''/time_entries''
          (JObj [(''project_id'', JNum 7), (''task_id'', JNum 8),
                 (''spent_date'', JStr ''2024-01-02''), (''notes'', JStr [])])]"
    using writes [THEN conjunct2, THEN conjunct2] by (simp add: today or_default_def)
  have differ: "local_date (- 300) 1704159000000 \<noteq> formatDate 1704159000000"
    by (simp add: today local)
  show ?thesis using listed logged dated started differ by (intro conjI)
qed

end
